theory Spec2Isabelle
  imports Complex_Main "HOL-Library.AList" "HOL-Library.Sublist"
begin

section \<open>Common Python notions\<close>

text \<open>
  A \<open>datetime\<close> is a naive timestamp with microsecond resolution: the number of
  microseconds since a fixed origin. A \<open>timedelta\<close> is a difference of two of them.
  A Python \<open>float\<close> is modelled by the real number it denotes. The session manager and
  the pipeline compare and subtract durations, confidences and readings of \<open>time.time()\<close>,
  which are exact reals there; the analytics service rounds its averages and rates, and
  its arithmetic is that of doubles, rounding included.
\<close>

type_synonym datetime = int
type_synonym timedelta = int

definition total_seconds :: "timedelta \<Rightarrow> real" where
  "total_seconds d = real_of_int d / 1000000"

text \<open>The slice \<open>xs[-n:]\<close> for a positive \<open>n\<close>: the last \<open>n\<close> elements, all of them when
  there are fewer.\<close>

definition py_last_n :: "nat \<Rightarrow> 'a list \<Rightarrow> 'a list" where
  "py_last_n n xs = drop (length xs - n) xs"

section \<open>models/conversation.py\<close>

subsection \<open>ConversationSession\<close>

text \<open>An entry of \<open>conversation_history\<close>: a dict with the keys role, content, timestamp
  and, for a user entry only, confidence.\<close>

record turn =
  turn_role :: string
  turn_content :: string
  turn_timestamp :: datetime
  turn_confidence :: "real option"

record ConversationSession =
  sess_id :: string
  client_id :: string
  user_id :: "string option"
  start_time :: datetime
  end_time :: "datetime option"
  status :: string
  total_interactions :: int
  conversation_history :: "turn list"
  metadata :: "(string \<times> string) list"

text \<open>One call of \<open>add_interaction\<close>: its three arguments and the two readings of
  \<open>datetime.now()\<close> it takes for the timestamps.\<close>

record exchange =
  ex_user_message :: string
  ex_ai_response :: string
  ex_confidence :: real
  user_now :: datetime
  assistant_now :: datetime

definition exchange_turns :: "exchange \<Rightarrow> turn list" where
  "exchange_turns e =
     [\<lparr>turn_role = ''user'', turn_content = ex_user_message e,
       turn_timestamp = user_now e, turn_confidence = Some (ex_confidence e)\<rparr>,
      \<lparr>turn_role = ''assistant'', turn_content = ex_ai_response e,
       turn_timestamp = assistant_now e, turn_confidence = None\<rparr>]"

definition add_interaction :: "ConversationSession \<Rightarrow> exchange \<Rightarrow> ConversationSession" where
  "add_interaction s e =
     (let h = conversation_history s @ exchange_turns e;
          n = total_interactions s + 1
      in s\<lparr>total_interactions := n,
           conversation_history := (if length h > 50 then py_last_n 50 h else h)\<rparr>)"

text \<open>A sequence of calls on one session, in order.\<close>

definition add_interactions :: "ConversationSession \<Rightarrow> exchange list \<Rightarrow> ConversationSession" where
  "add_interactions s es = foldl add_interaction s es"

definition get_duration :: "ConversationSession \<Rightarrow> datetime \<Rightarrow> real" where
  "get_duration s now =
     (let e = (case end_time s of Some t \<Rightarrow> t | None \<Rightarrow> now)
      in total_seconds (e - start_time s))"

subsection \<open>ConversationManager\<close>

text \<open>
  \<open>active_sessions\<close> is a dict keyed by client id. Python dicts keep insertion order and
  \<open>_cleanup_old_sessions\<close> iterates over it, so it is an association list:
  \<open>AList.update\<close> overwrites a present key in place and appends a new one,
  \<open>AList.delete\<close> removes a key.
\<close>

record ConversationManager =
  active_sessions :: "(string \<times> ConversationSession) list"
  session_history :: "ConversationSession list"
  max_active_sessions :: nat

definition ConversationManager_init :: ConversationManager where
  "ConversationManager_init =
     \<lparr>active_sessions = [], session_history = [], max_active_sessions = 1000\<rparr>"

definition end_session ::
  "ConversationManager \<Rightarrow> string \<Rightarrow> datetime \<Rightarrow> ConversationSession option \<times> ConversationManager" where
  "end_session m cid now =
     (case map_of (active_sessions m) cid of
        None \<Rightarrow> (None, m)
      | Some s \<Rightarrow>
          (let s' = s\<lparr>end_time := Some now, status := ''ended''\<rparr>
           in (Some s',
               m\<lparr>active_sessions := AList.delete cid (active_sessions m),
                 session_history := session_history m @ [s']\<rparr>)))"

text \<open>
  \<open>_cleanup_old_sessions\<close> reads the clock once for \<open>current_time\<close>; each \<open>end_session\<close>
  it then calls reads it again: \<open>end_now i\<close> is the reading of the \<open>i\<close>-th such call.
\<close>

definition sessions_to_remove :: "ConversationManager \<Rightarrow> datetime \<Rightarrow> string list" where
  "sessions_to_remove m current_time =
     map fst (filter (\<lambda>(cid, s). total_seconds (current_time - start_time s) > 3600)
                (active_sessions m))"

fun end_sessions :: "ConversationManager \<Rightarrow> (nat \<Rightarrow> datetime) \<Rightarrow> nat \<Rightarrow> string list \<Rightarrow> ConversationManager" where
  "end_sessions m end_now i [] = m"
| "end_sessions m end_now i (cid # cids) =
     end_sessions (snd (end_session m cid (end_now i))) end_now (Suc i) cids"

definition cleanup_old_sessions ::
  "ConversationManager \<Rightarrow> datetime \<Rightarrow> (nat \<Rightarrow> datetime) \<Rightarrow> ConversationManager" where
  "cleanup_old_sessions m current_time end_now =
     end_sessions m end_now 0 (sessions_to_remove m current_time)"

text \<open>
  \<open>create_session\<close>: \<open>new_id\<close> is the value of \<open>str(uuid.uuid4())\<close>, \<open>created\<close> the clock
  reading that becomes the session's \<open>start_time\<close>. The source has no \<open>raise\<close> on this
  path, so the result is not an error sum.
\<close>

record create_clock =
  created :: datetime
  cleanup_time :: datetime
  end_times :: "nat \<Rightarrow> datetime"

definition new_session :: "string \<Rightarrow> string \<Rightarrow> string option \<Rightarrow> datetime \<Rightarrow> ConversationSession" where
  "new_session new_id cid uid now =
     \<lparr>sess_id = new_id, client_id = cid, user_id = uid, start_time = now,
      end_time = None, status = ''active'', total_interactions = 0,
      conversation_history = [],
      metadata = [(''created_by'', ''voice_assistant''), (''version'', ''1.0'')]\<rparr>"

definition create_session ::
  "ConversationManager \<Rightarrow> string \<Rightarrow> string option \<Rightarrow> string \<Rightarrow> create_clock
     \<Rightarrow> ConversationSession \<times> ConversationManager" where
  "create_session m cid uid new_id clk =
     (let session = new_session new_id cid uid (created clk);
          m1 = (if length (active_sessions m) \<ge> max_active_sessions m
                then cleanup_old_sessions m (cleanup_time clk) (end_times clk)
                else m)
      in (session, m1\<lparr>active_sessions := AList.update cid session (active_sessions m1)\<rparr>))"

definition get_session :: "ConversationManager \<Rightarrow> string \<Rightarrow> ConversationSession option" where
  "get_session m cid = map_of (active_sessions m) cid"

definition manager_add_interaction ::
  "ConversationManager \<Rightarrow> string \<Rightarrow> exchange \<Rightarrow> bool \<times> ConversationManager" where
  "manager_add_interaction m cid e =
     (case map_of (active_sessions m) cid of
        Some s \<Rightarrow>
          (True, m\<lparr>active_sessions := AList.update cid (add_interaction s e) (active_sessions m)\<rparr>)
      | None \<Rightarrow> (False, m))"

text \<open>The two assignments \<open>end_session\<close> makes to the session it ends.\<close>

definition ended :: "ConversationSession \<Rightarrow> datetime \<Rightarrow> ConversationSession" where
  "ended s now = s\<lparr>end_time := Some now, status := ''ended''\<rparr>"

subsection \<open>Example managers\<close>

text \<open>A manager with ceiling 2 holding a session two hours old and one 200 seconds old,
  and the clock readings of one \<open>create_session\<close> call on it.\<close>

definition small_manager :: ConversationManager where
  "small_manager =
     \<lparr>active_sessions = [(''a'', new_session ''s1'' ''a'' None 0),
                         (''b'', new_session ''s2'' ''b'' None 7000000000)],
      session_history = [], max_active_sessions = 2\<rparr>"

definition small_clock :: create_clock where
  "small_clock = \<lparr>created = 7200000000, cleanup_time = 7200000001, end_times = (\<lambda>i. 7200000002)\<rparr>"

text \<open>The manager the constructor builds (ceiling 1000) holding 1000 sessions of distinct
  clients, all started at time 0, and a clock one minute later.\<close>

definition crowd :: "nat \<Rightarrow> (string \<times> ConversationSession) list" where
  "crowd n = map (\<lambda>i. (replicate i CHR ''c'', new_session (replicate i CHR ''s'') (replicate i CHR ''c'') None 0)) [0..<n]"

definition full_manager :: ConversationManager where
  "full_manager = ConversationManager_init\<lparr>active_sessions := crowd 1000\<rparr>"

definition minute_clock :: create_clock where
  "minute_clock = \<lparr>created = 60000000, cleanup_time = 60000000, end_times = (\<lambda>i. 60000000)\<rparr>"

section \<open>services/voice_pipeline.py\<close>

subsection \<open>Data\<close>

type_synonym bytes = string

text \<open>A raised \<open>Exception\<close> with its message.\<close>

datatype exn = Exception string

text \<open>An entry of a session context's history: a dict with the keys role and content.\<close>

record message =
  role :: string
  content :: string

text \<open>
  The dict \<open>_get_session_context\<close> keeps per session id, with the keys history, user_id,
  start_time, total_interactions and, once an exchange was recorded, last_interaction.
\<close>

record session_context =
  history :: "message list"
  ctx_user_id :: "string option"
  ctx_start_time :: real
  ctx_total_interactions :: int
  last_interaction :: "real option"

text \<open>
  The dict a transcription returns. \<open>None\<close> in \<open>tr_transcript\<close> stands for a missing (or
  \<open>None\<close>) entry, \<open>None\<close> in \<open>tr_confidence\<close> for a missing key, which
  \<open>.get("confidence", 0.0)\<close> reads as 0.
\<close>

record transcription =
  tr_transcript :: "string option"
  tr_confidence :: "real option"

record VoiceResponse =
  audio_data :: "bytes option"
  transcript :: string
  ai_response :: string
  confidence :: real
  processing_time :: real
  session_id :: string

text \<open>
  The pipeline object: its per-session contexts (the attribute \<open>active_sessions\<close> of
  \<open>VoicePipeline\<close>, a dict keyed by session id) and its configuration.
\<close>

record VoicePipeline =
  contexts :: "string \<rightharpoonup> session_context"
  min_confidence_threshold :: real
  max_processing_time :: real
  enable_streaming :: bool

definition VoicePipeline_init :: VoicePipeline where
  "VoicePipeline_init =
     \<lparr>contexts = Map.empty, min_confidence_threshold = 7 / 10,
      max_processing_time = 5, enable_streaming = True\<rparr>"

text \<open>
  The collaborators the pipeline calls, as it sees them: a call returns a value or raises.
  \<open>transcribe_audio_chunk\<close>, \<open>retrieve_context\<close> and \<open>generate_response\<close> are the methods
  of \<open>self.deepgram\<close>, \<open>self.rag\<close> and \<open>self.groq\<close>; the theorems hold for every behaviour
  of them. \<open>generate\<close> is the ElevenLabs library call that
  \<open>ElevenLabsService.text_to_speech\<close> wraps.
\<close>

record services =
  transcribe_audio_chunk :: "bytes \<Rightarrow> exn + transcription option"
  retrieve_context :: "string \<Rightarrow> string option \<Rightarrow> message list \<Rightarrow> exn + string"
  generate_response :: "string \<Rightarrow> string \<Rightarrow> message list \<Rightarrow> string \<Rightarrow> exn + string option"
  generate :: "string \<Rightarrow> exn + bytes"

text \<open>The calls one run makes on its collaborators, in order, with their arguments.\<close>

datatype capability_call =
  Transcribe bytes
| Retrieve string "string option" "message list"
| Generate string string "message list" string
| Synthesize string

text \<open>
  The readings of \<open>time.time()\<close> during one call of \<open>process_audio_chunk\<close>: at its start,
  when \<open>_get_session_context\<close> creates a context, when \<open>_update_session_context\<close> stamps
  \<open>last_interaction\<close>, and the one \<open>processing_time\<close> is computed from.
\<close>

record call_clock =
  clk_start :: real
  clk_context :: real
  clk_update :: real
  clk_end :: real

subsection \<open>Fixed texts\<close>

definition clarification_text :: string where
  "clarification_text =
     ''I'm sorry, I didn't catch that clearly. Could you please repeat your question?''"

definition apology_text :: string where
  "apology_text =
     ''I apologize, but I'm having trouble processing your request right now. Could you please try again?''"

definition error_text :: string where
  "error_text =
     ''I'm sorry, I encountered a technical issue. Please try again or speak with a human agent.''"

text \<open>The value of \<open>_get_customer_service_prompt\<close>, its lines joined by newlines.\<close>

definition customer_service_prompt_lines :: "string list" where
  "customer_service_prompt_lines =
     [''You are an expert AI customer service representative. Your goals are:'',
      '''',
      ''1. SOLVE PROBLEMS: Focus on resolving the customer's issue quickly and effectively'',
      ''2. BE EMPATHETIC: Show understanding and care for customer concerns'',
      ''3. STAY PROFESSIONAL: Maintain a helpful, courteous tone at all times'',
      ''4. BE CONCISE: Keep responses brief but complete - this is a voice conversation'',
      ''5. USE CONTEXT: Leverage provided information to give personalized responses'',
      ''6. ESCALATE WHEN NEEDED: If you can't help, offer to connect with a human agent'',
      '''',
      ''Voice Conversation Guidelines:'',
      ''- Speak naturally and conversationally'',
      ''- Use short, clear sentences'',
      ''- Avoid technical jargon unless necessary'',
      ''- Confirm understanding when handling complex requests'',
      ''- Express empathy for frustrations or problems'',
      '''',
      ''Remember: The customer called for help. Your job is to provide excellent service and leave them satisfied with their experience.'']"

fun join_lines :: "string list \<Rightarrow> string" where
  "join_lines [] = []"
| "join_lines [l] = l"
| "join_lines (l # ls) = l @ [CHR 0x0A] @ join_lines ls"

definition get_customer_service_prompt :: string where
  "get_customer_service_prompt = join_lines customer_service_prompt_lines"

subsection \<open>services/groq\_service.py: optimize\_for\_voice\<close>

text \<open>
  \<open>s.replace(old, new)\<close> for a non-empty \<open>old\<close>: the occurrences of \<open>old\<close> are found from
  the left and do not overlap. The counter is the number of characters of a matched
  occurrence still to skip.
\<close>

fun replace_from :: "nat \<Rightarrow> string \<Rightarrow> string \<Rightarrow> string \<Rightarrow> string" where
  "replace_from k old new [] = []"
| "replace_from (Suc k) old new (c # cs) = replace_from k old new cs"
| "replace_from 0 old new (c # cs) =
     (if prefix old (c # cs) then new @ replace_from (length old - 1) old new cs
      else c # replace_from 0 old new cs)"

definition str_replace :: "string \<Rightarrow> string \<Rightarrow> string \<Rightarrow> string" where
  "str_replace old new s = replace_from 0 old new s"

definition replacements :: "(string \<times> string) list" where
  "replacements =
     [(''e.g.'', ''for example''), (''i.e.'', ''that is''), (''etc.'', ''and so on''),
      (''&'', ''and''), (''@'', ''at''), (''#'', ''number''), (''%'', ''percent''),
      (''$'', ''dollars'')]"

definition optimize_for_voice :: "string \<Rightarrow> string" where
  "optimize_for_voice text0 =
     (let text1 = str_replace ''_'' '''' (str_replace ''*'' '''' (str_replace ''**'' '''' text0));
          text2 = foldl (\<lambda>t (abbrev, full). str_replace abbrev full t) text1 replacements;
          text3 = str_replace ''. '' ''. ... '' text2;
          text4 = str_replace ''? '' ''? ... '' text3
      in str_replace ''! '' ''! ... '' text4)"

subsection \<open>services/elevenlabs\_service.py: text\_to\_speech\<close>

text \<open>
  The body of \<open>text_to_speech\<close> is one \<open>try\<close> whose \<open>except Exception\<close> returns \<open>None\<close>.
  Its callers treat it as any call, one that returns or raises.
\<close>

definition text_to_speech :: "services \<Rightarrow> string \<Rightarrow> exn + bytes option" where
  "text_to_speech svc text0 =
     (case generate svc text0 of
        Inl e \<Rightarrow> Inr None
      | Inr audio \<Rightarrow> Inr (Some audio))"

subsection \<open>VoicePipeline\<close>

definition fresh_context :: "real \<Rightarrow> session_context" where
  "fresh_context now =
     \<lparr>history = [], ctx_user_id = None, ctx_start_time = now,
      ctx_total_interactions = 0, last_interaction = None\<rparr>"

definition get_session_context ::
  "VoicePipeline \<Rightarrow> string \<Rightarrow> real \<Rightarrow> session_context \<times> VoicePipeline" where
  "get_session_context p sid now =
     (case contexts p sid of
        None \<Rightarrow> (fresh_context now, p\<lparr>contexts := (contexts p)(sid \<mapsto> fresh_context now)\<rparr>)
      | Some c \<Rightarrow> (c, p))"

definition update_session_context ::
  "VoicePipeline \<Rightarrow> string \<Rightarrow> string \<Rightarrow> string \<Rightarrow> real \<Rightarrow> real \<Rightarrow> VoicePipeline" where
  "update_session_context p sid user_msg reply create_now update_now =
     (let (c, p1) = get_session_context p sid create_now;
          h = history c @ [\<lparr>role = ''user'', content = user_msg\<rparr>,
                           \<lparr>role = ''assistant'', content = reply\<rparr>];
          h' = (if length h > 20 then py_last_n 20 h else h)
      in p1\<lparr>contexts := (contexts p1)(sid \<mapsto>
            c\<lparr>history := h',
              ctx_total_interactions := ctx_total_interactions c + 1,
              last_interaction := Some update_now\<rparr>)\<rparr>)"

definition empty_response :: "call_clock \<Rightarrow> string \<Rightarrow> VoiceResponse" where
  "empty_response clk sid =
     \<lparr>audio_data = None, transcript = '''', ai_response = '''', confidence = 0,
      processing_time = clk_end clk - clk_start clk, session_id = sid\<rparr>"

definition generate_clarification_response ::
  "services \<Rightarrow> call_clock \<Rightarrow> string \<Rightarrow> exn + VoiceResponse" where
  "generate_clarification_response svc clk sid =
     (case text_to_speech svc clarification_text of
        Inl e \<Rightarrow> Inl e
      | Inr clarification_audio \<Rightarrow>
          Inr \<lparr>audio_data = clarification_audio, transcript = '''',
               ai_response = clarification_text, confidence = 0,
               processing_time = clk_end clk - clk_start clk, session_id = sid\<rparr>)"

text \<open>
  Steps 2 to 7 of \<open>process_audio_chunk\<close>, entered with a non-empty transcript whose
  confidence passed the threshold. The result is the response or the exception that
  left the \<open>try\<close> block, the pipeline as the steps left it, and the calls made.
\<close>

definition answer ::
  "services \<Rightarrow> call_clock \<Rightarrow> VoicePipeline \<Rightarrow> string \<Rightarrow> string \<Rightarrow> real
     \<Rightarrow> (exn + VoiceResponse) \<times> VoicePipeline \<times> capability_call list" where
  "answer svc clk p sid transcript0 confidence0 =
     (let (ctx, p1) = get_session_context p sid (clk_context clk);
          r = Retrieve transcript0 (ctx_user_id ctx) (history ctx)
      in case retrieve_context svc transcript0 (ctx_user_id ctx) (history ctx) of
           Inl e \<Rightarrow> (Inl e, p1, [r])
         | Inr rag_context \<Rightarrow>
             (let g = Generate transcript0 rag_context (history ctx) get_customer_service_prompt
              in case generate_response svc transcript0 rag_context (history ctx)
                        get_customer_service_prompt of
                   Inl e \<Rightarrow> (Inl e, p1, [r, g])
                 | Inr generated \<Rightarrow>
                     (let reply = (case generated of
                                     None \<Rightarrow> apology_text
                                   | Some t \<Rightarrow> if t = [] then apology_text else t);
                          voice = optimize_for_voice reply
                      in case text_to_speech svc voice of
                           Inl e \<Rightarrow> (Inl e, p1, [r, g, Synthesize voice])
                         | Inr audio_response \<Rightarrow>
                             (Inr \<lparr>audio_data = audio_response, transcript = transcript0,
                                   ai_response = reply, confidence = confidence0,
                                   processing_time = clk_end clk - clk_start clk,
                                   session_id = sid\<rparr>,
                              update_session_context p1 sid transcript0 reply
                                (clk_context clk) (clk_update clk),
                              [r, g, Synthesize voice]))))"

text \<open>The \<open>try\<close> block of \<open>process_audio_chunk\<close>.\<close>

definition try_block ::
  "services \<Rightarrow> call_clock \<Rightarrow> VoicePipeline \<Rightarrow> bytes \<Rightarrow> string
     \<Rightarrow> (exn + VoiceResponse) \<times> VoicePipeline \<times> capability_call list" where
  "try_block svc clk p audio sid =
     (case transcribe_audio_chunk svc audio of
        Inl e \<Rightarrow> (Inl e, p, [Transcribe audio])
      | Inr None \<Rightarrow> (Inr (empty_response clk sid), p, [Transcribe audio])
      | Inr (Some tr) \<Rightarrow>
          (case tr_transcript tr of
             None \<Rightarrow> (Inr (empty_response clk sid), p, [Transcribe audio])
           | Some t \<Rightarrow>
               if t = [] then (Inr (empty_response clk sid), p, [Transcribe audio])
               else
                 (let c = (case tr_confidence tr of None \<Rightarrow> 0 | Some x \<Rightarrow> x)
                  in if c < min_confidence_threshold p
                     then (generate_clarification_response svc clk sid, p,
                           [Transcribe audio, Synthesize clarification_text])
                     else (case answer svc clk p sid t c of
                             (res, p', calls) \<Rightarrow> (res, p', Transcribe audio # calls)))))"

text \<open>
  \<open>process_audio_chunk\<close>: the \<open>try\<close> block, and the \<open>except Exception\<close> handler that
  builds the error response. The handler calls \<open>text_to_speech\<close> outside any \<open>try\<close>.
\<close>

definition process_audio_chunk ::
  "services \<Rightarrow> call_clock \<Rightarrow> VoicePipeline \<Rightarrow> bytes \<Rightarrow> string
     \<Rightarrow> (exn + VoiceResponse) \<times> VoicePipeline \<times> capability_call list" where
  "process_audio_chunk svc clk p audio sid =
     (case try_block svc clk p audio sid of
        (Inr response, p', calls) \<Rightarrow> (Inr response, p', calls)
      | (Inl e, p', calls) \<Rightarrow>
          (case text_to_speech svc error_text of
             Inl e' \<Rightarrow> (Inl e', p', calls @ [Synthesize error_text])
           | Inr error_audio \<Rightarrow>
               (Inr \<lparr>audio_data = error_audio, transcript = '''',
                     ai_response = error_text, confidence = 0,
                     processing_time = clk_end clk - clk_start clk, session_id = sid\<rparr>,
                p', calls @ [Synthesize error_text])))"

subsection \<open>main.py: one audio\_chunk message\<close>

text \<open>
  The module-level objects of main.py, and what the websocket handler does with an
  \<open>audio_chunk\<close> message: it passes the data and the id of the session that
  \<open>create_session\<close> returned to the pipeline.
\<close>

record app =
  voice_pipeline :: VoicePipeline
  conversation_manager :: ConversationManager

definition on_audio_chunk ::
  "services \<Rightarrow> call_clock \<Rightarrow> app \<Rightarrow> ConversationSession \<Rightarrow> bytes
     \<Rightarrow> (exn + VoiceResponse) \<times> app" where
  "on_audio_chunk svc clk a session data =
     (case process_audio_chunk svc clk (voice_pipeline a) data (sess_id session) of
        (res, p', calls) \<Rightarrow> (res, a\<lparr>voice_pipeline := p'\<rparr>))"

subsection \<open>Example collaborators\<close>

definition quiet_clock :: call_clock where
  "quiet_clock = \<lparr>clk_start = 10, clk_context = 11, clk_update = 12, clk_end = 13\<rparr>"

text \<open>A transcription of ``hello'' with the given confidence, an empty retrieval, the
  reply ``hi there'' and a synthesis that returns the bytes ``mp3''.\<close>

definition hello_services :: "real \<Rightarrow> services" where
  "hello_services c =
     \<lparr>transcribe_audio_chunk =
        (\<lambda>a. Inr (Some \<lparr>tr_transcript = Some ''hello'', tr_confidence = Some c\<rparr>)),
      retrieve_context = (\<lambda>q u h. Inr ''''),
      generate_response = (\<lambda>m c h s. Inr (Some ''hi there'')),
      generate = (\<lambda>t. Inr ''mp3'')\<rparr>"

text \<open>The same, with a retrieval that raises.\<close>

definition failing_services :: services where
  "failing_services =
     (hello_services 1)\<lparr>retrieve_context := (\<lambda>q u h. Inl (Exception ''no database''))\<rparr>"

text \<open>The same, with a transcription that raises, and with a generation that raises.\<close>

definition deaf_services :: services where
  "deaf_services =
     (hello_services 1)\<lparr>transcribe_audio_chunk := (\<lambda>a. Inl (Exception ''no connection''))\<rparr>"

definition speechless_services :: services where
  "speechless_services =
     (hello_services 1)\<lparr>generate_response := (\<lambda>m c h s. Inl (Exception ''no model''))\<rparr>"

text \<open>The application after its first client connected: the manager holds the session
  \<open>create_session\<close> made for client ``c1'', the pipeline is as constructed.\<close>

definition first_clock :: create_clock where
  "first_clock = \<lparr>created = 0, cleanup_time = 0, end_times = (\<lambda>i. 0)\<rparr>"

definition first_session :: ConversationSession where
  "first_session = fst (create_session ConversationManager_init ''c1'' None ''s1'' first_clock)"

definition first_app :: app where
  "first_app =
     \<lparr>voice_pipeline = VoicePipeline_init,
      conversation_manager =
        snd (create_session ConversationManager_init ''c1'' None ''s1'' first_clock)\<rparr>"

section \<open>services/analytics\_service.py\<close>

subsection \<open>Strings\<close>

text \<open>
  Texts are ASCII. \<open>lower\<close> maps the letters A to Z and leaves every other character;
  \<open>is_space\<close> holds of the ASCII characters \<open>str.isspace\<close> accepts; \<open>str_in w s\<close> is
  \<open>w in s\<close>, the substring test.
\<close>

definition lower_char :: "char \<Rightarrow> char" where
  "lower_char c =
     (case map_of (zip ''ABCDEFGHIJKLMNOPQRSTUVWXYZ'' ''abcdefghijklmnopqrstuvwxyz'') c of
        Some d \<Rightarrow> d
      | None \<Rightarrow> c)"

definition lower :: "string \<Rightarrow> string" where
  "lower s = map lower_char s"

definition is_space :: "char \<Rightarrow> bool" where
  "is_space c \<longleftrightarrow>
     c \<in> set [CHR 0x09, CHR 0x0A, CHR 0x0B, CHR 0x0C, CHR 0x0D,
                CHR 0x1C, CHR 0x1D, CHR 0x1E, CHR 0x1F, CHR 0x20]"

definition strip :: "string \<Rightarrow> string" where
  "strip s = rev (dropWhile is_space (rev (dropWhile is_space s)))"

fun str_in :: "string \<Rightarrow> string \<Rightarrow> bool" where
  "str_in w [] = (w = [])"
| "str_in w (c # cs) = (prefix w (c # cs) \<or> str_in w cs)"

text \<open>\<open>any(k in s for k in keywords)\<close> and \<open>sum(1 for k in keywords if k in s)\<close>.\<close>

definition any_in :: "string list \<Rightarrow> string \<Rightarrow> bool" where
  "any_in keywords s = list_ex (\<lambda>k. str_in k s) keywords"

definition hits :: "string list \<Rightarrow> string \<Rightarrow> nat" where
  "hits keywords s = length (filter (\<lambda>k. str_in k s) keywords)"

text \<open>\<open>s.split()\<close>: the maximal runs of characters that are not whitespace.\<close>

fun split_from :: "string \<Rightarrow> string \<Rightarrow> string list" where
  "split_from cur [] = (if cur = [] then [] else [cur])"
| "split_from cur (c # cs) =
     (if is_space c then (if cur = [] then split_from [] cs else cur # split_from [] cs)
      else split_from (cur @ [c]) cs)"

definition str_split :: "string \<Rightarrow> string list" where
  "str_split s = split_from [] s"

text \<open>The characters the pattern \<open>\w\<close> accepts, among ASCII.\<close>

definition is_word_char :: "char \<Rightarrow> bool" where
  "is_word_char c \<longleftrightarrow>
     c \<in> set ''abcdefghijklmnopqrstuvwxyzABCDEFGHIJKLMNOPQRSTUVWXYZ0123456789_''"

fun join_space :: "string list \<Rightarrow> string" where
  "join_space [] = []"
| "join_space [w] = w"
| "join_space (w # ws) = w @ '' '' @ join_space ws"

text \<open>
  \<open>max(d, key=...)\<close> over a non-empty sequence: the first element whose key is maximal
  (a later element replaces the current one only when its key is strictly greater).
\<close>

fun max_from :: "('a \<Rightarrow> nat) \<Rightarrow> 'a \<Rightarrow> 'a list \<Rightarrow> 'a" where
  "max_from key best [] = best"
| "max_from key best (x # xs) = max_from key (if key x > key best then x else best) xs"

subsection \<open>Floats\<close>

text \<open>
  The service computes its averages and rates with Python floats, IEEE 754 doubles, and
  what \<open>round(x, 2)\<close> returns depends on how they round. A double is modelled by the real
  number it denotes. \<open>round_half_even y\<close> is the integer nearest to \<open>y\<close>, the even one of the
  two when \<open>y\<close> lies halfway.
\<close>

definition round_half_even :: "real \<Rightarrow> int" where
  "round_half_even y =
     (let f = \<lfloor>y\<rfloor>; d = y - of_int f
      in if d < 1 / 2 then f
         else if d > 1 / 2 then f + 1
         else if even f then f else f + 1)"

text \<open>
  The binary exponent of a positive \<open>x\<close>, the \<open>e\<close> with \<open>2 ^ e \<le> x < 2 ^ (e + 1)\<close>, found by
  halving or doubling \<open>x\<close> until it lies between 1 and 2. The exponents of doubles lie
  between -1074 and 1023, so 2200 rounds are enough for every magnitude a double has.
\<close>

fun exponent_from :: "nat \<Rightarrow> real \<Rightarrow> int \<Rightarrow> int" where
  "exponent_from 0 x e = e"
| "exponent_from (Suc n) x e =
     (if x \<ge> 2 then exponent_from n (x / 2) (e + 1)
      else if x < 1 then exponent_from n (x * 2) (e - 1)
      else e)"

definition exponent :: "real \<Rightarrow> int" where
  "exponent x = exponent_from 2200 \<bar>x\<bar> 0"

text \<open>
  \<open>to_double x\<close> is the double nearest to \<open>x\<close>: \<open>x\<close> rounded to a multiple of the spacing
  \<open>u\<close> that doubles have at the magnitude of \<open>x\<close> (53 significant bits; below
  \<open>2 ^ -1022\<close> the spacing stays \<open>2 ^ -1074\<close>), a tie going to the even multiple. Magnitudes
  of \<open>2 ^ 1024\<close> and more, where a double overflows, are outside the model; the counts,
  durations and rates of the service stay far below.
\<close>

definition to_double :: "real \<Rightarrow> real" where
  "to_double x =
     (if x = 0 then 0
      else (let e = max (exponent x) (- 1022); u = 2 powi (e - 52)
            in of_int (round_half_even (x / u)) * u))"

text \<open>
  The float operations round the exact result to a double. A real in the place of a
  float (a duration, an integer operand that Python converts) stands for the double
  nearest to it, so the operations round their arguments as well. \<open>idiv\<close> is the true
  division \<open>a / b\<close> of two Python integers, which rounds the exact quotient. The divisor is
  not zero wherever the service divides.
\<close>

definition fadd :: "real \<Rightarrow> real \<Rightarrow> real" where
  "fadd a b = to_double (to_double a + to_double b)"

definition fmul :: "real \<Rightarrow> real \<Rightarrow> real" where
  "fmul a b = to_double (to_double a * to_double b)"

definition fdiv :: "real \<Rightarrow> real \<Rightarrow> real" where
  "fdiv a b = to_double (to_double a / to_double b)"

definition idiv :: "int \<Rightarrow> int \<Rightarrow> real" where
  "idiv a b = to_double (of_int a / of_int b)"

text \<open>
  \<open>sum(xs)\<close> over floats: the integer 0 plus the first element is that element, and the
  others are added to it from left to right, rounding after every addition (the loop of
  CPython up to version 3.11; later versions carry a compensation term through it, which
  makes no difference for fewer than three elements).
\<close>

definition py_sum :: "real list \<Rightarrow> real" where
  "py_sum xs = (case xs of [] \<Rightarrow> 0 | x # rest \<Rightarrow> foldl fadd (to_double x) rest)"

text \<open>
  \<open>round(x, 2)\<close> on a float: the exact value of the double \<open>x\<close> is rounded to the nearest
  hundredth, a tie to the even one, and the result is the double nearest to that decimal
  number.
\<close>

definition round2 :: "real \<Rightarrow> real" where
  "round2 x = to_double (of_int (round_half_even (to_double x * 100)) / 100)"

subsection \<open>Dates\<close>

text \<open>The day number and the hour of a timestamp, and a number of days as a timedelta.\<close>

definition date :: "datetime \<Rightarrow> int" where
  "date t = t div 86400000000"

definition hour :: "datetime \<Rightarrow> nat" where
  "hour t = nat ((t div 3600000000) mod 24)"

definition days :: "int \<Rightarrow> timedelta" where
  "days n = n * 86400000000"

subsection \<open>The logs\<close>

text \<open>A call record: \<open>start_time\<close> and \<open>end_time\<close> are stored as ISO strings and parsed
  back on reading; the record holds the timestamps.\<close>

record call_data =
  call_session_id :: string
  call_client_id :: string
  call_user_id :: "string option"
  call_start_time :: datetime
  call_end_time :: datetime
  call_duration :: real
  call_total_interactions :: int
  call_status :: string
  call_conversation_history :: "turn list"
  call_metadata :: "(string \<times> string) list"

record interaction_data =
  int_session_id :: string
  int_timestamp :: datetime
  int_user_message :: string
  int_confidence :: real
  intent :: string
  question_category :: string

text \<open>
  The service: its call log, its interaction log and the question pattern counts (a
  dict, in insertion order). The error log and the two attributes no method reads are
  left out.
\<close>

record AnalyticsService =
  call_logs :: "call_data list"
  interaction_logs :: "interaction_data list"
  question_patterns :: "(string \<times> nat) list"

definition AnalyticsService_init :: AnalyticsService where
  "AnalyticsService_init = \<lparr>call_logs = [], interaction_logs = [], question_patterns = []\<rparr>"

subsection \<open>Recording a call\<close>

definition intent_patterns :: "(string \<times> string list) list" where
  "intent_patterns =
     [(''billing_inquiry'', [''bill'', ''charge'', ''payment'', ''invoice'', ''cost'', ''price'', ''fee'']),
      (''technical_support'', [''not working'', ''error'', ''problem'', ''issue'', ''broken'', ''fix'', ''help'']),
      (''account_access'', [''login'', ''password'', ''account'', ''access'', ''locked'', ''reset'']),
      (''product_information'', [''what is'', ''how does'', ''features'', ''benefits'', ''compare'']),
      (''cancellation'', [''cancel'', ''unsubscribe'', ''terminate'', ''end'', ''stop'']),
      (''complaint'', [''angry'', ''frustrated'', ''disappointed'', ''terrible'', ''awful'', ''bad'']),
      (''compliment'', [''great'', ''excellent'', ''amazing'', ''wonderful'', ''love'', ''perfect'']),
      (''general_question'', [''question'', ''ask'', ''wondering'', ''curious'', ''information''])]"

definition classify_intent :: "string \<Rightarrow> string" where
  "classify_intent message0 =
     (let message = lower message0;
          intent_scores =
            filter (\<lambda>(i, score). score > 0)
              (map (\<lambda>(i, keywords). (i, hits keywords message)) intent_patterns)
      in case intent_scores of
           [] \<Rightarrow> ''general_question''
         | first # others \<Rightarrow> fst (max_from snd first others))"

definition categories :: "(string \<times> string list) list" where
  "categories =
     [(''account_management'', [''account'', ''profile'', ''settings'', ''personal'']),
      (''billing_payment'', [''bill'', ''payment'', ''charge'', ''invoice'', ''cost'']),
      (''technical_issues'', [''error'', ''problem'', ''not working'', ''broken'', ''issue'']),
      (''product_features'', [''feature'', ''how to'', ''what is'', ''can i'', ''does it'']),
      (''service_inquiry'', [''service'', ''support'', ''help'', ''assistance'']),
      (''other'', [])]"

definition categorize_question :: "string \<Rightarrow> string" where
  "categorize_question question0 =
     (case filter (\<lambda>(category, keywords). any_in keywords (lower question0)) categories of
        [] \<Rightarrow> ''other''
      | (category, keywords) # rest \<Rightarrow> category)"

definition update_question_patterns :: "(string \<times> nat) list \<Rightarrow> string \<Rightarrow> (string \<times> nat) list" where
  "update_question_patterns patterns question =
     (let normalized = filter (\<lambda>c. is_word_char c \<or> is_space c) (lower question);
          ws = str_split normalized
      in if length ws \<ge> 3
         then (let pattern = join_space (take 3 ws)
               in AList.update pattern
                    ((case map_of patterns pattern of None \<Rightarrow> 0 | Some n \<Rightarrow> n) + 1) patterns)
         else patterns)"

fun process_interactions :: "AnalyticsService \<Rightarrow> turn list \<Rightarrow> string \<Rightarrow> AnalyticsService" where
  "process_interactions svc [] sid = svc"
| "process_interactions svc (interaction # rest) sid =
     (if turn_role interaction = ''user''
      then (let question = strip (lower (turn_content interaction));
                interaction_data =
                  \<lparr>int_session_id = sid,
                   int_timestamp = turn_timestamp interaction,
                   int_user_message = question,
                   int_confidence =
                     (case turn_confidence interaction of None \<Rightarrow> 1 | Some c \<Rightarrow> c),
                   intent = classify_intent question,
                   question_category = categorize_question question\<rparr>
            in process_interactions
                 (svc\<lparr>interaction_logs := interaction_logs svc @ [interaction_data],
                      question_patterns := update_question_patterns (question_patterns svc) question\<rparr>)
                 rest sid)
      else process_interactions svc rest sid)"

text \<open>
  \<open>save_call_data\<close>. \<open>now_end\<close> is the clock reading used when the session has no end
  time; \<open>now_duration\<close> the one \<open>get_duration\<close> takes in that case.
\<close>

definition save_call_data ::
  "AnalyticsService \<Rightarrow> ConversationSession \<Rightarrow> datetime \<Rightarrow> datetime \<Rightarrow> AnalyticsService" where
  "save_call_data svc session now_end now_duration =
     (let call =
            \<lparr>call_session_id = sess_id session,
             call_client_id = client_id session,
             call_user_id = user_id session,
             call_start_time = start_time session,
             call_end_time = (case end_time session of Some t \<Rightarrow> t | None \<Rightarrow> now_end),
             call_duration = get_duration session now_duration,
             call_total_interactions = total_interactions session,
             call_status = status session,
             call_conversation_history = conversation_history session,
             call_metadata = metadata session\<rparr>
      in process_interactions (svc\<lparr>call_logs := call_logs svc @ [call]\<rparr>)
           (conversation_history session) (sess_id session))"

subsection \<open>The aggregate\<close>

record overview_metrics =
  total_calls :: nat
  calls_today :: nat
  calls_this_week :: nat
  calls_this_month :: nat
  average_duration :: real
  average_interactions :: real
  success_rate :: real
  peak_hour :: nat

record trend_series =
  daily_calls :: "(int \<times> nat) list"
  hourly_distribution :: "(nat \<times> nat) list"
  duration_trend :: "(int \<times> real) list"
  interaction_trend :: "(int \<times> real) list"

record performance_metrics =
  average_response_time :: real
  error_rate :: real
  user_satisfaction :: real

record call_analytics =
  overview :: overview_metrics
  trends :: trend_series
  performance :: performance_metrics

definition get_empty_analytics :: call_analytics where
  "get_empty_analytics =
     \<lparr>overview =
        \<lparr>total_calls = 0, calls_today = 0, calls_this_week = 0, calls_this_month = 0,
         average_duration = 0, average_interactions = 0, success_rate = 0, peak_hour = 0\<rparr>,
      trends =
        \<lparr>daily_calls = [], hourly_distribution = [], duration_trend = [],
         interaction_trend = []\<rparr>,
      performance =
        \<lparr>average_response_time = 0, error_rate = 0, user_satisfaction = 0\<rparr>\<rparr>"

text \<open>
  The three trend methods run over \<open>i = 0, ..., 29\<close> and read the clock in every round:
  \<open>now_at i\<close> is the reading of round \<open>i\<close>. A date stands for its ISO string.
\<close>

definition get_daily_call_trend :: "call_data list \<Rightarrow> (nat \<Rightarrow> datetime) \<Rightarrow> (int \<times> nat) list" where
  "get_daily_call_trend logs now_at =
     rev (map (\<lambda>i. (let d = date (now_at i) - int i
                     in (d, length (filter (\<lambda>c. date (call_start_time c) = d) logs))))
            [0..<30])"

definition get_duration_trend :: "call_data list \<Rightarrow> (nat \<Rightarrow> datetime) \<Rightarrow> (int \<times> real) list" where
  "get_duration_trend logs now_at =
     rev (map (\<lambda>i. (let d = date (now_at i) - int i;
                         durations = map call_duration
                                       (filter (\<lambda>c. date (call_start_time c) = d) logs);
                         avg_duration =
                           (if durations \<noteq> []
                            then fdiv (py_sum durations) (real (length durations)) else 0)
                     in (d, round2 avg_duration)))
            [0..<30])"

definition get_interaction_trend :: "call_data list \<Rightarrow> (nat \<Rightarrow> datetime) \<Rightarrow> (int \<times> real) list" where
  "get_interaction_trend logs now_at =
     rev (map (\<lambda>i. (let d = date (now_at i) - int i;
                         interactions = map call_total_interactions
                                          (filter (\<lambda>c. date (call_start_time c) = d) logs);
                         avg_interactions =
                           (if interactions \<noteq> []
                            then idiv (sum_list interactions) (int (length interactions)) else 0)
                     in (d, round2 avg_interactions)))
            [0..<30])"

definition get_average_response_time :: real where
  "get_average_response_time = to_double (12 / 10)"

definition get_error_rate :: "call_data list \<Rightarrow> real" where
  "get_error_rate logs =
     (if logs = [] then 0
      else (let error_calls = length (filter (\<lambda>c. call_status c = ''error'') logs)
            in round2 (fmul (idiv (int error_calls) (int (length logs))) 100)))"

definition positive_words :: "string list" where
  "positive_words = [''thank'', ''great'', ''good'', ''helpful'', ''perfect'']"

definition negative_words :: "string list" where
  "negative_words = [''bad'', ''terrible'', ''awful'', ''frustrated'', ''angry'']"

text \<open>The loop of \<open>_estimate_user_satisfaction\<close> over the interaction log, with its two
  counters.\<close>

fun count_indicators :: "nat \<times> nat \<Rightarrow> interaction_data list \<Rightarrow> nat \<times> nat" where
  "count_indicators (positive, negative) [] = (positive, negative)"
| "count_indicators (positive, negative) (l # ls) =
     (let message = lower (int_user_message l);
          positive' = (if any_in positive_words message then positive + 1 else positive);
          negative' = (if any_in negative_words message then negative + 1 else negative)
      in count_indicators (positive', negative') ls)"

definition estimate_user_satisfaction :: "interaction_data list \<Rightarrow> real" where
  "estimate_user_satisfaction logs =
     (if logs = [] then 0
      else (case count_indicators (0, 0) logs of
              (positive_indicators, negative_indicators) \<Rightarrow>
                (let total_indicators = positive_indicators + negative_indicators
                 in if total_indicators = 0 then 75
                    else (let satisfaction =
                                fmul (idiv (int positive_indicators) (int total_indicators)) 100
                          in round2 satisfaction))))"

text \<open>The loop that fills \<open>hour_distribution\<close>, a \<open>defaultdict(int)\<close>: a new hour is
  appended with count 1, a known one is incremented in place.\<close>

definition bump_hour :: "(nat \<times> nat) list \<Rightarrow> nat \<Rightarrow> (nat \<times> nat) list" where
  "bump_hour d h = AList.update h ((case map_of d h of None \<Rightarrow> 0 | Some n \<Rightarrow> n) + 1) d"

definition hour_distribution :: "call_data list \<Rightarrow> (nat \<times> nat) list" where
  "hour_distribution logs = foldl bump_hour [] (map (\<lambda>c. hour (call_start_time c)) logs)"

definition peak_hour_of :: "(nat \<times> nat) list \<Rightarrow> nat" where
  "peak_hour_of d =
     (case map fst d of
        [] \<Rightarrow> 0
      | k # ks \<Rightarrow> max_from (\<lambda>h. case map_of d h of None \<Rightarrow> 0 | Some n \<Rightarrow> n) k ks)"

text \<open>The clock readings of one \<open>get_call_analytics\<close> call.\<close>

record analytics_clock =
  an_now :: datetime
  daily_now :: "nat \<Rightarrow> datetime"
  duration_now :: "nat \<Rightarrow> datetime"
  interaction_now :: "nat \<Rightarrow> datetime"

text \<open>
  \<open>get_call_analytics\<close>. With records of the types above no statement of its \<open>try\<close>
  block raises, so the \<open>except\<close> branch (which returns the empty aggregate) is not
  taken.
\<close>

definition get_call_analytics :: "AnalyticsService \<Rightarrow> analytics_clock \<Rightarrow> call_analytics" where
  "get_call_analytics svc clk =
     (if call_logs svc = [] then get_empty_analytics
      else
        (let logs = call_logs svc;
             now = an_now clk;
             today = date now;
             week_ago = now - days 7;
             month_ago = now - days 30;
             today_calls = filter (\<lambda>c. date (call_start_time c) = today) logs;
             week_calls = filter (\<lambda>c. call_start_time c \<ge> week_ago) logs;
             month_calls = filter (\<lambda>c. call_start_time c \<ge> month_ago) logs;
             total = length logs;
             avg_duration =
               (if total > 0 then fdiv (py_sum (map call_duration logs)) (real total) else 0);
             avg_interactions =
               (if total > 0
                then idiv (sum_list (map call_total_interactions logs)) (int total)
                else 0);
             successful_calls = length (filter (\<lambda>c. call_status c = ''ended'') logs);
             rate = (if total > 0 then fmul (idiv (int successful_calls) (int total)) 100 else 0);
             distribution = hour_distribution logs
         in \<lparr>overview =
               \<lparr>total_calls = total,
                calls_today = length today_calls,
                calls_this_week = length week_calls,
                calls_this_month = length month_calls,
                average_duration = round2 avg_duration,
                average_interactions = round2 avg_interactions,
                success_rate = round2 rate,
                peak_hour = peak_hour_of distribution\<rparr>,
             trends =
               \<lparr>daily_calls = get_daily_call_trend logs (daily_now clk),
                hourly_distribution = distribution,
                duration_trend = get_duration_trend logs (duration_now clk),
                interaction_trend = get_interaction_trend logs (interaction_now clk)\<rparr>,
             performance =
               \<lparr>average_response_time = get_average_response_time,
                error_rate = get_error_rate logs,
                user_satisfaction = estimate_user_satisfaction (interaction_logs svc)\<rparr>\<rparr>))"

subsection \<open>Example logs\<close>

definition said :: "string \<Rightarrow> interaction_data" where
  "said msg =
     \<lparr>int_session_id = ''s1'', int_timestamp = 0, int_user_message = msg,
      int_confidence = 1, intent = classify_intent msg,
      question_category = categorize_question msg\<rparr>"

text \<open>One thankful message and two unhappy ones.\<close>

definition three_messages :: "interaction_data list" where
  "three_messages = [said ''thank you'', said ''this is bad'', said ''terrible'']"

text \<open>Twenty-three thankful messages and one hundred and thirty-seven unhappy ones.\<close>

definition many_messages :: "interaction_data list" where
  "many_messages = replicate 23 (said ''thank you'') @ replicate 137 (said ''bad'')"

text \<open>An ended call of the given duration in seconds that started at the given hour of
  day 0.\<close>

definition call_at :: "nat \<Rightarrow> int \<Rightarrow> call_data" where
  "call_at h secs =
     \<lparr>call_session_id = ''s1'', call_client_id = ''c1'', call_user_id = None,
      call_start_time = int h * 3600000000,
      call_end_time = int h * 3600000000 + secs * 1000000,
      call_duration = real_of_int secs, call_total_interactions = 0,
      call_status = ''ended'', call_conversation_history = [], call_metadata = []\<rparr>"

text \<open>A call log with one call at 15 o'clock followed by one at 9 o'clock.\<close>

definition afternoon_then_morning :: AnalyticsService where
  "afternoon_then_morning = AnalyticsService_init\<lparr>call_logs := [call_at 15 60, call_at 9 60]\<rparr>"

definition day_one_clock :: analytics_clock where
  "day_one_clock =
     \<lparr>an_now = 86400000000, daily_now = (\<lambda>i. 86400000000),
      duration_now = (\<lambda>i. 86400000000), interaction_now = (\<lambda>i. 86400000000)\<rparr>"

text \<open>A session that ended 42 seconds after it started.\<close>

definition ended_session :: ConversationSession where
  "ended_session =
     (new_session ''s1'' ''c1'' None 0)\<lparr>end_time := Some 42000000, status := ''ended''\<rparr>"

section \<open>The context window of a session\<close>

lemma py_last_n_length: "length (py_last_n n xs) = min n (length xs)"
  by (simp add: py_last_n_def)

lemma py_last_n_all: "length xs \<le> n \<Longrightarrow> py_last_n n xs = xs"
  by (simp add: py_last_n_def)

lemma py_last_n_append: "py_last_n n (py_last_n n xs @ ys) = py_last_n n (xs @ ys)"
  by (cases "length xs \<le> n") (simp_all add: py_last_n_def add.commute)

lemma add_interaction_history:
  "conversation_history (add_interaction s e) =
     py_last_n 50 (conversation_history s @ exchange_turns e)"
  by (simp add: add_interaction_def Let_def py_last_n_all)

lemma add_interaction_total:
  "total_interactions (add_interaction s e) = total_interactions s + 1"
  by (simp add: add_interaction_def Let_def)

lemma add_interactions_snoc:
  "add_interactions s (es @ [e]) = add_interaction (add_interactions s es) e"
  by (simp add: add_interactions_def)

lemma add_interactions_history:
  "length (conversation_history s) \<le> 50 \<Longrightarrow>
   conversation_history (add_interactions s es) =
     py_last_n 50 (conversation_history s @ concat (map exchange_turns es))"
proof (induction es rule: rev_induct)
  case Nil
  then show ?case by (simp add: add_interactions_def py_last_n_all)
next
  case (snoc e es)
  then show ?case
    by (simp add: add_interactions_snoc add_interaction_history py_last_n_append)
qed

lemma add_interactions_total:
  "total_interactions (add_interactions s es) = total_interactions s + int (length es)"
  by (induction es rule: rev_induct)
     (simp_all add: add_interactions_snoc add_interaction_total, simp add: add_interactions_def)

lemma length_concat_exchange_turns:
  "length (concat (map exchange_turns es)) = 2 * length es"
  by (induction es) (simp_all add: exchange_turns_def)

text \<open>
  C3. Whatever exchanges are added to a session whose history holds at most 50 entries
  (a new session holds none), the history never holds more than 50 entries, and it is
  exactly the last 50 entries of everything recorded so far (all of them while there are
  at most 50), in the order they were recorded: the oldest entries go first.
\<close>

theorem context_window_fifo:
  assumes "length (conversation_history s) \<le> 50"
  shows "length (conversation_history (add_interactions s es)) \<le> 50
       \<and> conversation_history (add_interactions s es) =
           drop (length (conversation_history s @ concat (map exchange_turns es)) - 50)
             (conversation_history s @ concat (map exchange_turns es))
       \<and> suffix (conversation_history (add_interactions s es))
           (conversation_history s @ concat (map exchange_turns es))"
proof -
  let ?all = "conversation_history s @ concat (map exchange_turns es)"
  have h: "conversation_history (add_interactions s es) = py_last_n 50 ?all"
    using assms by (rule add_interactions_history)
  have "length (py_last_n 50 ?all) \<le> 50"
    by (simp add: py_last_n_length)
  moreover have "py_last_n 50 ?all = drop (length ?all - 50) ?all"
    by (simp only: py_last_n_def)
  moreover have "suffix (drop (length ?all - 50) ?all) ?all"
    by (rule suffix_drop)
  ultimately show ?thesis
    using h by simp
qed

theorem context_window_fifo_witness:
  "length (conversation_history (new_session ''s1'' ''c1'' None 0)) \<le> 50
   \<and> length (conversation_history (add_interactions (new_session ''s1'' ''c1'' None 0)
        (replicate 26 \<lparr>ex_user_message = ''hi'', ex_ai_response = ''hello'', ex_confidence = 1,
                        user_now = 0, assistant_now = 0\<rparr>))) = 50
   \<and> hd (conversation_history (add_interactions (new_session ''s1'' ''c1'' None 0)
        (replicate 26 \<lparr>ex_user_message = ''hi'', ex_ai_response = ''hello'', ex_confidence = 1,
                        user_now = 0, assistant_now = 0\<rparr>))) =
       \<lparr>turn_role = ''user'', turn_content = ''hi'', turn_timestamp = 0,
        turn_confidence = Some 1\<rparr>"
proof -
  let ?e = "\<lparr>ex_user_message = ''hi'', ex_ai_response = ''hello'', ex_confidence = 1::real,
             user_now = 0::int, assistant_now = 0::int\<rparr>"
  let ?s = "new_session ''s1'' ''c1'' None 0"
  define rec where "rec = conversation_history ?s @ concat (map exchange_turns (replicate 26 ?e))"
  define hist where "hist = conversation_history (add_interactions ?s (replicate 26 ?e))"
  have h: "length (conversation_history ?s) \<le> 50"
    by (simp add: new_session_def)
  have len: "length rec = 52"
    unfolding rec_def
    by (simp only: length_append length_concat_exchange_turns) (simp add: new_session_def)
  have "hist = drop (length rec - 50) rec"
    unfolding rec_def hist_def
    using context_window_fifo [OF h, of "replicate 26 ?e"] by blast
  then have eq: "hist = drop 2 rec"
    using len by simp
  then have "length hist = 50"
    using len by simp
  moreover have "hd (drop 2 rec) = \<lparr>turn_role = ''user'', turn_content = ''hi'',
        turn_timestamp = 0, turn_confidence = Some 1\<rparr>"
    unfolding rec_def
    by (simp add: new_session_def exchange_turns_def eval_nat_numeral)
  ultimately show ?thesis
    using h eq unfolding hist_def by simp
qed

text \<open>
  C4 as stated fails: a new session that has received 26 exchanges has begun truncating
  (52 entries were recorded, 50 are kept), its counter is 26 and its window holds 50
  entries, so the counter is below the window length.
\<close>

theorem counter_below_window_counterexample:
  "total_interactions (add_interactions (new_session ''s1'' ''c1'' None 0)
      (replicate 26 \<lparr>ex_user_message = ''hi'', ex_ai_response = ''hello'', ex_confidence = 1,
                      user_now = 0, assistant_now = 0\<rparr>)) = 26
   \<and> length (conversation_history (add_interactions (new_session ''s1'' ''c1'' None 0)
      (replicate 26 \<lparr>ex_user_message = ''hi'', ex_ai_response = ''hello'', ex_confidence = 1,
                      user_now = 0, assistant_now = 0\<rparr>))) = 50
   \<and> \<not> (total_interactions (add_interactions (new_session ''s1'' ''c1'' None 0)
      (replicate 26 \<lparr>ex_user_message = ''hi'', ex_ai_response = ''hello'', ex_confidence = 1,
                      user_now = 0, assistant_now = 0\<rparr>))
        \<ge> int (length (conversation_history (add_interactions (new_session ''s1'' ''c1'' None 0)
      (replicate 26 \<lparr>ex_user_message = ''hi'', ex_ai_response = ''hello'', ex_confidence = 1,
                      user_now = 0, assistant_now = 0\<rparr>)))))"
proof -
  let ?e = "\<lparr>ex_user_message = ''hi'', ex_ai_response = ''hello'', ex_confidence = 1::real,
             user_now = 0::int, assistant_now = 0::int\<rparr>"
  let ?s = "new_session ''s1'' ''c1'' None 0"
  have t: "total_interactions (add_interactions ?s (replicate 26 ?e)) = 26"
    by (simp add: add_interactions_total new_session_def)
  have "length (conversation_history ?s) \<le> 50"
    by (simp add: new_session_def)
  then have "conversation_history (add_interactions ?s (replicate 26 ?e)) =
      py_last_n 50 (conversation_history ?s @ concat (map exchange_turns (replicate 26 ?e)))"
    by (rule add_interactions_history)
  then have l: "length (conversation_history (add_interactions ?s (replicate 26 ?e))) = 50"
    by (simp only: py_last_n_length length_append length_concat_exchange_turns)
       (simp add: new_session_def)
  show ?thesis
    using t l by simp
qed

text \<open>
  C4, amended. The counter grows by exactly one per exchange added, whatever the window
  does. The window counts entries, two per exchange: on a session that started empty
  with a zero counter, the window length is at most twice the counter, and once
  truncation has begun (more than 50 entries recorded) it is 50 and strictly below twice
  the counter.
\<close>

theorem counter_counts_exchanges:
  "total_interactions (add_interactions s es) = total_interactions s + int (length es)
   \<and> (conversation_history s = [] \<and> total_interactions s = 0 \<longrightarrow>
        int (length (conversation_history (add_interactions s es)))
          \<le> 2 * total_interactions (add_interactions s es)
        \<and> (2 * length es > 50 \<longrightarrow>
             length (conversation_history (add_interactions s es)) = 50
             \<and> int (length (conversation_history (add_interactions s es)))
                 < 2 * total_interactions (add_interactions s es)))"
proof -
  have t: "total_interactions (add_interactions s es) = total_interactions s + int (length es)"
    by (rule add_interactions_total)
  have "length (conversation_history (add_interactions s es)) = min 50 (2 * length es)"
    if "conversation_history s = []"
  proof -
    have "length (conversation_history s) \<le> 50"
      using that by simp
    then have "conversation_history (add_interactions s es) =
        py_last_n 50 (conversation_history s @ concat (map exchange_turns es))"
      by (rule add_interactions_history)
    then show ?thesis
      using that by (simp add: py_last_n_length length_concat_exchange_turns)
  qed
  then show ?thesis
    using t by auto
qed

theorem counter_counts_exchanges_witness:
  "conversation_history (new_session ''s1'' ''c1'' None 0) = []
   \<and> total_interactions (new_session ''s1'' ''c1'' None 0) = 0
   \<and> 2 * length (replicate 26 \<lparr>ex_user_message = ''hi'', ex_ai_response = ''hello'', ex_confidence = 1,
                      user_now = 0, assistant_now = 0\<rparr>) > 50
   \<and> total_interactions (add_interactions (new_session ''s1'' ''c1'' None 0)
      (replicate 26 \<lparr>ex_user_message = ''hi'', ex_ai_response = ''hello'', ex_confidence = 1,
                      user_now = 0, assistant_now = 0\<rparr>)) = 26
   \<and> length (conversation_history (add_interactions (new_session ''s1'' ''c1'' None 0)
      (replicate 26 \<lparr>ex_user_message = ''hi'', ex_ai_response = ''hello'', ex_confidence = 1,
                      user_now = 0, assistant_now = 0\<rparr>))) = 50"
  using counter_counts_exchanges [of "new_session ''s1'' ''c1'' None 0"
      "replicate 26 \<lparr>ex_user_message = ''hi'', ex_ai_response = ''hello'', ex_confidence = 1,
                      user_now = 0, assistant_now = 0\<rparr>"]
  by (simp add: new_session_def)

section \<open>Creating a session at the ceiling\<close>

lemma end_session_present:
  "map_of (active_sessions m) cid = Some s \<Longrightarrow>
   snd (end_session m cid now) =
     m\<lparr>active_sessions := AList.delete cid (active_sessions m),
       session_history := session_history m @ [ended s now]\<rparr>"
  by (simp add: end_session_def ended_def Let_def)

lemma end_sessions_general:
  "distinct (map fst (active_sessions m)) \<Longrightarrow> distinct cids \<Longrightarrow>
   set cids \<subseteq> fst ` set (active_sessions m) \<Longrightarrow>
   active_sessions (end_sessions m f i cids) =
     filter (\<lambda>(c, s). c \<notin> set cids) (active_sessions m)
   \<and> session_history (end_sessions m f i cids) =
     session_history m @
       map (\<lambda>(j, c). ended (the (map_of (active_sessions m) c)) (f j)) (enumerate i cids)
   \<and> max_active_sessions (end_sessions m f i cids) = max_active_sessions m"
proof (induction cids arbitrary: m i)
  case Nil
  then show ?case by simp
next
  case (Cons cid cids)
  have "cid \<in> fst ` set (active_sessions m)"
    using Cons.prems(3) by simp
  then obtain s where s: "map_of (active_sessions m) cid = Some s"
    by (cases "map_of (active_sessions m) cid") (auto simp: map_of_eq_None_iff)
  define m1 where "m1 = snd (end_session m cid (f i))"
  have m1: "m1 = m\<lparr>active_sessions := AList.delete cid (active_sessions m),
       session_history := session_history m @ [ended s (f i)]\<rparr>"
    unfolding m1_def using s by (rule end_session_present)
  have d1: "distinct (map fst (active_sessions m1))"
    using Cons.prems(1) by (simp add: m1 distinct_delete)
  have d2: "distinct cids" and nin: "cid \<notin> set cids"
    using Cons.prems(2) by simp_all
  have sub: "set cids \<subseteq> fst ` set (active_sessions m1)"
  proof
    fix c assume c: "c \<in> set cids"
    then have "c \<noteq> cid" and "c \<in> fst ` set (active_sessions m)"
      using nin Cons.prems(3) by auto
    then show "c \<in> fst ` set (active_sessions m1)"
      by (force simp: m1 AList.delete_eq)
  qed
  have look: "\<And>c. c \<in> set cids \<Longrightarrow> map_of (active_sessions m1) c = map_of (active_sessions m) c"
    using nin by (auto simp: m1 delete_conv')
  have mp: "map (\<lambda>(j, c). ended (the (map_of (active_sessions m1) c)) (f j)) (enumerate (Suc i) cids)
      = map (\<lambda>(j, c). ended (the (map_of (active_sessions m) c)) (f j)) (enumerate (Suc i) cids)"
    by (rule map_cong) (auto simp: look in_set_enumerate_eq)
  have step: "end_sessions m f i (cid # cids) = end_sessions m1 f (Suc i) cids"
    by (simp add: m1_def)
  show ?case
    unfolding step
    using Cons.IH [OF d1 d2 sub, of "Suc i"] s
    by (simp add: mp) (auto simp: m1 AList.delete_eq intro: filter_cong)
qed

lemma enumerate_map_fst_lookup:
  "\<forall>x \<in> set xs. map_of al (fst x) = Some (snd x) \<Longrightarrow>
   map (\<lambda>(j, c). g (the (map_of al c)) j) (enumerate i (map fst xs)) =
   map (\<lambda>(j, c, s). g s j) (enumerate i xs)"
  by (induction xs arbitrary: i) auto

lemma filter_keys_of_filter:
  assumes "distinct (map fst al)"
  shows "filter (\<lambda>(c, s). c \<notin> set (map fst (filter P al))) al = filter (\<lambda>x. \<not> P x) al"
proof (rule filter_cong [OF refl])
  fix x assume x: "x \<in> set al"
  obtain c s where cs: "x = (c, s)" by (cases x)
  have "c \<in> fst ` {y \<in> set al. P y} \<longleftrightarrow> P (c, s)"
  proof
    assume "c \<in> fst ` {y \<in> set al. P y}"
    then obtain s' where s': "(c, s') \<in> set al" "P (c, s')" by auto
    have "s' = s"
      using assms s'(1) x cs by (metis eq_key_imp_eq_value)
    then show "P (c, s)" using s'(2) by simp
  next
    assume "P (c, s)"
    then show "c \<in> fst ` {y \<in> set al. P y}"
      using x cs by force
  qed
  then show "(case x of (c, s) \<Rightarrow> c \<notin> set (map fst (filter P al))) = (\<not> P x)"
    by (simp add: cs)
qed

lemma cleanup_old_sessions_closed_form:
  assumes d: "distinct (map fst (active_sessions m))"
  shows "active_sessions (cleanup_old_sessions m t f) =
           filter (\<lambda>(c, s). \<not> total_seconds (t - start_time s) > 3600) (active_sessions m)"
    and "session_history (cleanup_old_sessions m t f) =
           session_history m @
             map (\<lambda>(j, c, s). s\<lparr>end_time := Some (f j), status := ''ended''\<rparr>)
               (enumerate 0 (filter (\<lambda>(c, s). total_seconds (t - start_time s) > 3600)
                  (active_sessions m)))"
    and "max_active_sessions (cleanup_old_sessions m t f) = max_active_sessions m"
proof -
  let ?P = "\<lambda>(c, s). total_seconds (t - start_time s) > 3600"
  let ?al = "active_sessions m"
  let ?cids = "map fst (filter ?P ?al)"
  have d2: "distinct ?cids"
    using d by (rule distinct_map_filter)
  have sub: "set ?cids \<subseteq> fst ` set ?al"
    by auto
  note g = end_sessions_general [OF d d2 sub, of f 0]
  have look: "\<forall>x \<in> set (filter ?P ?al). map_of ?al (fst x) = Some (snd x)"
    using d by simp
  show "active_sessions (cleanup_old_sessions m t f) =
           filter (\<lambda>(c, s). \<not> total_seconds (t - start_time s) > 3600) ?al"
    using g filter_keys_of_filter [OF d, of ?P]
    by (simp add: cleanup_old_sessions_def sessions_to_remove_def split_def)
  show "session_history (cleanup_old_sessions m t f) =
           session_history m @
             map (\<lambda>(j, c, s). s\<lparr>end_time := Some (f j), status := ''ended''\<rparr>)
               (enumerate 0 (filter ?P ?al))"
    using g enumerate_map_fst_lookup [of "filter ?P ?al" ?al "\<lambda>s j. ended s (f j)" 0, OF look]
    by (simp add: cleanup_old_sessions_def sessions_to_remove_def ended_def)
  show "max_active_sessions (cleanup_old_sessions m t f) = max_active_sessions m"
    using g by (simp add: cleanup_old_sessions_def sessions_to_remove_def)
qed

text \<open>
  C6, amended. A create call made while the number of active sessions is at or above the
  ceiling first ends every active session that started more than 3600 seconds before the
  clean-up's clock reading, in the order of the dict, moving each to the history with
  status ended; sessions no older than that stay active. It then stores the new session
  under the client id. It has no failure outcome.
\<close>

theorem create_session_at_ceiling:
  assumes "distinct (map fst (active_sessions m))"
      and "length (active_sessions m) \<ge> max_active_sessions m"
  shows "create_session m cid uid new_id clk =
     (new_session new_id cid uid (created clk),
      m\<lparr>active_sessions :=
          AList.update cid (new_session new_id cid uid (created clk))
            (filter (\<lambda>(c, s). \<not> total_seconds (cleanup_time clk - start_time s) > 3600)
               (active_sessions m)),
        session_history :=
          session_history m @
            map (\<lambda>(j, c, s). s\<lparr>end_time := Some (end_times clk j), status := ''ended''\<rparr>)
              (enumerate 0
                (filter (\<lambda>(c, s). total_seconds (cleanup_time clk - start_time s) > 3600)
                   (active_sessions m)))\<rparr>)
     \<and> map_of (active_sessions (snd (create_session m cid uid new_id clk))) cid =
         Some (new_session new_id cid uid (created clk))"
proof -
  define m1 where "m1 = cleanup_old_sessions m (cleanup_time clk) (end_times clk)"
  define young where "young = filter (\<lambda>(c, s). \<not> total_seconds (cleanup_time clk - start_time s) > 3600)
               (active_sessions m)"
  define hist where "hist = session_history m @
            map (\<lambda>(j, c, s). s\<lparr>end_time := Some (end_times clk j), status := ''ended''\<rparr>)
              (enumerate 0
                (filter (\<lambda>(c, s). total_seconds (cleanup_time clk - start_time s) > 3600)
                   (active_sessions m)))"
  note c = cleanup_old_sessions_closed_form [OF assms(1), of "cleanup_time clk" "end_times clk"]
  have m1: "m1 = m\<lparr>active_sessions := young, session_history := hist\<rparr>"
    unfolding m1_def young_def hist_def
    using c by (intro ConversationManager.equality) simp_all
  have "create_session m cid uid new_id clk =
     (new_session new_id cid uid (created clk),
      m1\<lparr>active_sessions :=
          AList.update cid (new_session new_id cid uid (created clk)) (active_sessions m1)\<rparr>)"
    using assms(2) by (simp add: create_session_def Let_def m1_def)
  then have "create_session m cid uid new_id clk =
     (new_session new_id cid uid (created clk),
      m\<lparr>active_sessions := AList.update cid (new_session new_id cid uid (created clk)) young,
        session_history := hist\<rparr>)"
    by (simp add: m1)
  then show ?thesis
    unfolding young_def hist_def by (simp add: update_conv')
qed

theorem create_session_at_ceiling_witness:
  "distinct (map fst (active_sessions small_manager))
   \<and> length (active_sessions small_manager) \<ge> max_active_sessions small_manager
   \<and> session_history (snd (create_session small_manager ''c'' None ''s3'' small_clock)) =
       [(new_session ''s1'' ''a'' None 0)\<lparr>end_time := Some 7200000002, status := ''ended''\<rparr>]
   \<and> active_sessions (snd (create_session small_manager ''c'' None ''s3'' small_clock)) =
       [(''b'', new_session ''s2'' ''b'' None 7000000000),
        (''c'', new_session ''s3'' ''c'' None 7200000000)]"
proof -
  have d: "distinct (map fst (active_sessions small_manager))"
    by (simp add: small_manager_def)
  have l: "length (active_sessions small_manager) \<ge> max_active_sessions small_manager"
    by (simp add: small_manager_def)
  show ?thesis
    using d l create_session_at_ceiling [OF d l, of "''c''" None "''s3''" small_clock]
    by (simp add: small_manager_def small_clock_def total_seconds_def new_session_def enumerate_eq_zip)
qed

text \<open>
  C6 as stated fails. The manager holds 1000 sessions, its ceiling, all one minute old.
  The create call ends none of them, moves nothing to the history, and admits the new
  session: 1001 sessions are active afterwards.
\<close>

lemma update_fresh_key: "k \<notin> fst ` set al \<Longrightarrow> AList.update k v al = al @ [(k, v)]"
  by (induction al) auto

lemma distinct_crowd: "distinct (map fst (crowd n))"
proof -
  have "inj_on (\<lambda>i. replicate i CHR ''c'') {0..<n}"
    by (rule inj_onI) (metis length_replicate)
  then show ?thesis
    by (simp add: crowd_def comp_def distinct_map)
qed

theorem create_session_no_eviction_counterexample:
  "length (active_sessions full_manager) \<ge> max_active_sessions full_manager
   \<and> session_history (snd (create_session full_manager ''new'' None ''id'' minute_clock)) = []
   \<and> length (active_sessions (snd (create_session full_manager ''new'' None ''id'' minute_clock))) = 1001"
proof -
  have l: "length (active_sessions full_manager) \<ge> max_active_sessions full_manager"
    by (simp add: full_manager_def ConversationManager_init_def crowd_def)
  have d: "distinct (map fst (active_sessions full_manager))"
    by (simp add: full_manager_def distinct_crowd)
  note c = cleanup_old_sessions_closed_form [OF d, of "cleanup_time minute_clock" "end_times minute_clock"]
  have young: "\<And>x. x \<in> set (crowd 1000) \<Longrightarrow>
      \<not> (case x of (c, s) \<Rightarrow> total_seconds (cleanup_time minute_clock - start_time s) > 3600)"
    by (auto simp: crowd_def new_session_def minute_clock_def total_seconds_def)
  have f1: "filter (\<lambda>(c, s). \<not> total_seconds (cleanup_time minute_clock - start_time s) > 3600)
      (crowd 1000) = crowd 1000"
    using young by (simp add: filter_id_conv split_def)
  have f2: "filter (\<lambda>(c, s). total_seconds (cleanup_time minute_clock - start_time s) > 3600)
      (crowd 1000) = []"
    using young by (simp add: filter_empty_conv split_def)
  have fresh: "''new'' \<notin> fst ` set (crowd 1000)"
  proof
    assume "''new'' \<in> fst ` set (crowd 1000)"
    then obtain i where "''new'' = replicate i CHR ''c''"
      by (auto simp: crowd_def)
    then have "CHR ''n'' \<in> set (replicate i CHR ''c'')"
      by (metis list.set_intros(1))
    then show False by simp
  qed
  define m1 where "m1 = cleanup_old_sessions full_manager (cleanup_time minute_clock) (end_times minute_clock)"
  have a: "active_sessions m1 = crowd 1000"
    unfolding m1_def using c(1) f1 by (simp add: full_manager_def)
  have h: "session_history m1 = []"
    unfolding m1_def using c(2) f2 by (simp add: full_manager_def ConversationManager_init_def)
  have "snd (create_session full_manager ''new'' None ''id'' minute_clock) =
      m1\<lparr>active_sessions := AList.update ''new'' (new_session ''id'' ''new'' None (created minute_clock))
          (active_sessions m1)\<rparr>"
    using l by (simp add: create_session_def Let_def m1_def)
  then show ?thesis
    using l a h fresh by (simp add: update_fresh_key crowd_def)
qed

section \<open>The pipeline: error outcome and confidence gate\<close>

lemma text_to_speech_returns:
  "text_to_speech svc t = Inr (case generate svc t of Inl e \<Rightarrow> None | Inr a \<Rightarrow> Some a)"
  by (simp add: text_to_speech_def split: sum.split)

lemma process_audio_chunk_cases:
  "try_block svc clk p audio sid = (res, p', calls) \<Longrightarrow>
   process_audio_chunk svc clk p audio sid =
     (case res of
        Inr response \<Rightarrow> (Inr response, p', calls)
      | Inl e \<Rightarrow>
          (Inr \<lparr>audio_data = (case generate svc error_text of Inl x \<Rightarrow> None | Inr a \<Rightarrow> Some a),
                transcript = '''', ai_response = error_text, confidence = 0,
                processing_time = clk_end clk - clk_start clk, session_id = sid\<rparr>,
           p', calls @ [Synthesize error_text]))"
  by (simp add: process_audio_chunk_def text_to_speech_returns split: sum.split)

lemma get_session_context_value:
  "get_session_context p sid now =
     ((case contexts p sid of None \<Rightarrow> fresh_context now | Some c \<Rightarrow> c),
      p\<lparr>contexts := (contexts p)(sid \<mapsto>
          (case contexts p sid of None \<Rightarrow> fresh_context now | Some c \<Rightarrow> c))\<rparr>)"
  by (cases "contexts p sid") (simp_all add: get_session_context_def fun_upd_idem)

lemma try_block_answer:
  assumes "transcribe_audio_chunk svc audio = Inr (Some tr)"
      and "tr_transcript tr = Some t" and "t \<noteq> []"
      and "\<not> (case tr_confidence tr of None \<Rightarrow> 0 | Some x \<Rightarrow> x) < min_confidence_threshold p"
  shows "try_block svc clk p audio sid =
     (case answer svc clk p sid t (case tr_confidence tr of None \<Rightarrow> 0 | Some x \<Rightarrow> x) of
        (res, p', calls) \<Rightarrow> (res, p', Transcribe audio # calls))"
  using assms by (simp add: try_block_def Let_def)

lemma answer_returns:
  assumes "get_session_context p sid (clk_context clk) = (ctx, p1)"
      and "retrieve_context svc t (ctx_user_id ctx) (history ctx) = Inr rag"
      and "generate_response svc t rag (history ctx) get_customer_service_prompt = Inr gen"
  shows "answer svc clk p sid t c =
     (Inr \<lparr>audio_data =
             (case generate svc (optimize_for_voice
                     (case gen of None \<Rightarrow> apology_text
                      | Some r \<Rightarrow> if r = [] then apology_text else r)) of
                Inl x \<Rightarrow> None | Inr a \<Rightarrow> Some a),
           transcript = t,
           ai_response = (case gen of None \<Rightarrow> apology_text
                          | Some r \<Rightarrow> if r = [] then apology_text else r),
           confidence = c,
           processing_time = clk_end clk - clk_start clk, session_id = sid\<rparr>,
      update_session_context p1 sid t
        (case gen of None \<Rightarrow> apology_text | Some r \<Rightarrow> if r = [] then apology_text else r)
        (clk_context clk) (clk_update clk),
      [Retrieve t (ctx_user_id ctx) (history ctx),
       Generate t rag (history ctx) get_customer_service_prompt,
       Synthesize (optimize_for_voice
          (case gen of None \<Rightarrow> apology_text | Some r \<Rightarrow> if r = [] then apology_text else r))])"
  using assms by (simp add: answer_def Let_def text_to_speech_returns)

lemma answer_retrieval_raises:
  assumes "ctx = (case contexts p sid of None \<Rightarrow> fresh_context (clk_context clk) | Some c \<Rightarrow> c)"
      and "retrieve_context svc t (ctx_user_id ctx) (history ctx) = Inl e"
  shows "answer svc clk p sid t c =
     (Inl e, p\<lparr>contexts := (contexts p)(sid \<mapsto> ctx)\<rparr>,
      [Retrieve t (ctx_user_id ctx) (history ctx)])"
  using assms(2) unfolding assms(1)
  by (simp add: answer_def get_session_context_value Let_def)

lemma answer_generation_raises:
  assumes "ctx = (case contexts p sid of None \<Rightarrow> fresh_context (clk_context clk) | Some c \<Rightarrow> c)"
      and "retrieve_context svc t (ctx_user_id ctx) (history ctx) = Inr rag"
      and "generate_response svc t rag (history ctx) get_customer_service_prompt = Inl e"
  shows "answer svc clk p sid t c =
     (Inl e, p\<lparr>contexts := (contexts p)(sid \<mapsto> ctx)\<rparr>,
      [Retrieve t (ctx_user_id ctx) (history ctx),
       Generate t rag (history ctx) get_customer_service_prompt])"
  using assms(2,3) unfolding assms(1)
  by (simp add: answer_def get_session_context_value Let_def)

lemma process_audio_chunk_transcription_raises:
  assumes "transcribe_audio_chunk svc audio = Inl e"
  shows "process_audio_chunk svc clk p audio sid =
     (Inr \<lparr>audio_data = (case generate svc error_text of Inl x \<Rightarrow> None | Inr a \<Rightarrow> Some a),
           transcript = '''', ai_response = error_text, confidence = 0,
           processing_time = clk_end clk - clk_start clk, session_id = sid\<rparr>,
      p, [Transcribe audio, Synthesize error_text])"
proof -
  have t: "try_block svc clk p audio sid = (Inl e, p, [Transcribe audio])"
    using assms by (simp add: try_block_def)
  show ?thesis
    using process_audio_chunk_cases [OF t] by simp
qed

lemma process_audio_chunk_retrieval_raises:
  assumes "transcribe_audio_chunk svc audio = Inr (Some tr)"
      and "tr_transcript tr = Some t" and "t \<noteq> []"
      and "\<not> (case tr_confidence tr of None \<Rightarrow> 0 | Some x \<Rightarrow> x) < min_confidence_threshold p"
      and "ctx = (case contexts p sid of None \<Rightarrow> fresh_context (clk_context clk) | Some c \<Rightarrow> c)"
      and "retrieve_context svc t (ctx_user_id ctx) (history ctx) = Inl e"
  shows "process_audio_chunk svc clk p audio sid =
     (Inr \<lparr>audio_data = (case generate svc error_text of Inl x \<Rightarrow> None | Inr a \<Rightarrow> Some a),
           transcript = '''', ai_response = error_text, confidence = 0,
           processing_time = clk_end clk - clk_start clk, session_id = sid\<rparr>,
      p\<lparr>contexts := (contexts p)(sid \<mapsto> ctx)\<rparr>,
      [Transcribe audio, Retrieve t (ctx_user_id ctx) (history ctx), Synthesize error_text])"
proof -
  note a = answer_retrieval_raises [OF assms(5,6),
      of "case tr_confidence tr of None \<Rightarrow> 0 | Some x \<Rightarrow> x"]
  have t: "try_block svc clk p audio sid =
     (Inl e, p\<lparr>contexts := (contexts p)(sid \<mapsto> ctx)\<rparr>,
      [Transcribe audio, Retrieve t (ctx_user_id ctx) (history ctx)])"
    unfolding try_block_answer [OF assms(1-4)] a by simp
  show ?thesis
    using process_audio_chunk_cases [OF t] by simp
qed

lemma process_audio_chunk_generation_raises:
  assumes "transcribe_audio_chunk svc audio = Inr (Some tr)"
      and "tr_transcript tr = Some t" and "t \<noteq> []"
      and "\<not> (case tr_confidence tr of None \<Rightarrow> 0 | Some x \<Rightarrow> x) < min_confidence_threshold p"
      and "ctx = (case contexts p sid of None \<Rightarrow> fresh_context (clk_context clk) | Some c \<Rightarrow> c)"
      and "retrieve_context svc t (ctx_user_id ctx) (history ctx) = Inr rag"
      and "generate_response svc t rag (history ctx) get_customer_service_prompt = Inl e"
  shows "process_audio_chunk svc clk p audio sid =
     (Inr \<lparr>audio_data = (case generate svc error_text of Inl x \<Rightarrow> None | Inr a \<Rightarrow> Some a),
           transcript = '''', ai_response = error_text, confidence = 0,
           processing_time = clk_end clk - clk_start clk, session_id = sid\<rparr>,
      p\<lparr>contexts := (contexts p)(sid \<mapsto> ctx)\<rparr>,
      [Transcribe audio, Retrieve t (ctx_user_id ctx) (history ctx),
       Generate t rag (history ctx) get_customer_service_prompt, Synthesize error_text])"
proof -
  note a = answer_generation_raises [OF assms(5,6,7),
      of "case tr_confidence tr of None \<Rightarrow> 0 | Some x \<Rightarrow> x"]
  have t: "try_block svc clk p audio sid =
     (Inl e, p\<lparr>contexts := (contexts p)(sid \<mapsto> ctx)\<rparr>,
      [Transcribe audio, Retrieve t (ctx_user_id ctx) (history ctx),
       Generate t rag (history ctx) get_customer_service_prompt])"
    unfolding try_block_answer [OF assms(1-4)] a by simp
  show ?thesis
    using process_audio_chunk_cases [OF t] by simp
qed

text \<open>
  C1. \<open>process_audio_chunk\<close> always returns a response and never raises, whatever the
  session id, the audio and the behaviour of the transcription, retrieval and generation
  calls. When the transcription raises, when the retrieval raises, and when the
  generation raises, the response is the error outcome: empty transcript, the fixed
  apologetic reply (synthesized when the synthesis succeeds), confidence 0 and the
  elapsed time. The retrieval and the generation are reached with a non-empty transcript
  whose confidence is not below the threshold, and are called with the user id and the
  history of the session's context.
\<close>

theorem process_audio_chunk_total:
  "(\<exists>r. fst (process_audio_chunk svc clk p audio sid) = Inr r)
   \<and> (\<forall>e. transcribe_audio_chunk svc audio = Inl e \<longrightarrow>
          fst (process_audio_chunk svc clk p audio sid) =
            Inr \<lparr>audio_data = (case generate svc error_text of Inl x \<Rightarrow> None | Inr a \<Rightarrow> Some a),
                 transcript = '''', ai_response = error_text, confidence = 0,
                 processing_time = clk_end clk - clk_start clk, session_id = sid\<rparr>)
   \<and> (\<forall>tr t ctx e.
          transcribe_audio_chunk svc audio = Inr (Some tr)
          \<and> tr_transcript tr = Some t \<and> t \<noteq> []
          \<and> \<not> (case tr_confidence tr of None \<Rightarrow> 0 | Some x \<Rightarrow> x) < min_confidence_threshold p
          \<and> ctx = (case contexts p sid of None \<Rightarrow> fresh_context (clk_context clk) | Some c \<Rightarrow> c)
          \<and> retrieve_context svc t (ctx_user_id ctx) (history ctx) = Inl e \<longrightarrow>
          fst (process_audio_chunk svc clk p audio sid) =
            Inr \<lparr>audio_data = (case generate svc error_text of Inl x \<Rightarrow> None | Inr a \<Rightarrow> Some a),
                 transcript = '''', ai_response = error_text, confidence = 0,
                 processing_time = clk_end clk - clk_start clk, session_id = sid\<rparr>)
   \<and> (\<forall>tr t ctx rag e.
          transcribe_audio_chunk svc audio = Inr (Some tr)
          \<and> tr_transcript tr = Some t \<and> t \<noteq> []
          \<and> \<not> (case tr_confidence tr of None \<Rightarrow> 0 | Some x \<Rightarrow> x) < min_confidence_threshold p
          \<and> ctx = (case contexts p sid of None \<Rightarrow> fresh_context (clk_context clk) | Some c \<Rightarrow> c)
          \<and> retrieve_context svc t (ctx_user_id ctx) (history ctx) = Inr rag
          \<and> generate_response svc t rag (history ctx) get_customer_service_prompt = Inl e \<longrightarrow>
          fst (process_audio_chunk svc clk p audio sid) =
            Inr \<lparr>audio_data = (case generate svc error_text of Inl x \<Rightarrow> None | Inr a \<Rightarrow> Some a),
                 transcript = '''', ai_response = error_text, confidence = 0,
                 processing_time = clk_end clk - clk_start clk, session_id = sid\<rparr>)"
proof (intro conjI allI impI)
  obtain res p' calls where t: "try_block svc clk p audio sid = (res, p', calls)"
    by (cases "try_block svc clk p audio sid")
  show "\<exists>r. fst (process_audio_chunk svc clk p audio sid) = Inr r"
    using process_audio_chunk_cases [OF t] by (cases res) simp_all
next
  fix e
  assume "transcribe_audio_chunk svc audio = Inl e"
  then show "fst (process_audio_chunk svc clk p audio sid) =
            Inr \<lparr>audio_data = (case generate svc error_text of Inl x \<Rightarrow> None | Inr a \<Rightarrow> Some a),
                 transcript = '''', ai_response = error_text, confidence = 0,
                 processing_time = clk_end clk - clk_start clk, session_id = sid\<rparr>"
    by (simp add: process_audio_chunk_transcription_raises)
next
  fix tr t ctx e
  assume h: "transcribe_audio_chunk svc audio = Inr (Some tr)
          \<and> tr_transcript tr = Some t \<and> t \<noteq> []
          \<and> \<not> (case tr_confidence tr of None \<Rightarrow> 0 | Some x \<Rightarrow> x) < min_confidence_threshold p
          \<and> ctx = (case contexts p sid of None \<Rightarrow> fresh_context (clk_context clk) | Some c \<Rightarrow> c)
          \<and> retrieve_context svc t (ctx_user_id ctx) (history ctx) = Inl e"
  have "process_audio_chunk svc clk p audio sid =
     (Inr \<lparr>audio_data = (case generate svc error_text of Inl x \<Rightarrow> None | Inr a \<Rightarrow> Some a),
           transcript = '''', ai_response = error_text, confidence = 0,
           processing_time = clk_end clk - clk_start clk, session_id = sid\<rparr>,
      p\<lparr>contexts := (contexts p)(sid \<mapsto> ctx)\<rparr>,
      [Transcribe audio, Retrieve t (ctx_user_id ctx) (history ctx), Synthesize error_text])"
    by (rule process_audio_chunk_retrieval_raises [where tr = tr and t = t and e = e])
      (insert h, blast)+
  then show "fst (process_audio_chunk svc clk p audio sid) =
            Inr \<lparr>audio_data = (case generate svc error_text of Inl x \<Rightarrow> None | Inr a \<Rightarrow> Some a),
                 transcript = '''', ai_response = error_text, confidence = 0,
                 processing_time = clk_end clk - clk_start clk, session_id = sid\<rparr>"
    by simp
next
  fix tr t ctx rag e
  assume h: "transcribe_audio_chunk svc audio = Inr (Some tr)
          \<and> tr_transcript tr = Some t \<and> t \<noteq> []
          \<and> \<not> (case tr_confidence tr of None \<Rightarrow> 0 | Some x \<Rightarrow> x) < min_confidence_threshold p
          \<and> ctx = (case contexts p sid of None \<Rightarrow> fresh_context (clk_context clk) | Some c \<Rightarrow> c)
          \<and> retrieve_context svc t (ctx_user_id ctx) (history ctx) = Inr rag
          \<and> generate_response svc t rag (history ctx) get_customer_service_prompt = Inl e"
  have "process_audio_chunk svc clk p audio sid =
     (Inr \<lparr>audio_data = (case generate svc error_text of Inl x \<Rightarrow> None | Inr a \<Rightarrow> Some a),
           transcript = '''', ai_response = error_text, confidence = 0,
           processing_time = clk_end clk - clk_start clk, session_id = sid\<rparr>,
      p\<lparr>contexts := (contexts p)(sid \<mapsto> ctx)\<rparr>,
      [Transcribe audio, Retrieve t (ctx_user_id ctx) (history ctx),
       Generate t rag (history ctx) get_customer_service_prompt, Synthesize error_text])"
    by (rule process_audio_chunk_generation_raises [where tr = tr and t = t and rag = rag and e = e])
      (insert h, blast)+
  then show "fst (process_audio_chunk svc clk p audio sid) =
            Inr \<lparr>audio_data = (case generate svc error_text of Inl x \<Rightarrow> None | Inr a \<Rightarrow> Some a),
                 transcript = '''', ai_response = error_text, confidence = 0,
                 processing_time = clk_end clk - clk_start clk, session_id = sid\<rparr>"
    by simp
qed

lemma try_block_failing:
  "try_block failing_services quiet_clock VoicePipeline_init ''x'' ''s1'' =
     (Inl (Exception ''no database''),
      VoicePipeline_init\<lparr>contexts := [''s1'' \<mapsto> fresh_context 11]\<rparr>,
      [Transcribe ''x'', Retrieve ''hello'' None []])"
  by (simp add: try_block_def failing_services_def hello_services_def answer_def
      get_session_context_def VoicePipeline_init_def quiet_clock_def fresh_context_def)

theorem process_audio_chunk_total_witness:
  "transcribe_audio_chunk deaf_services ''x'' = Inl (Exception ''no connection'')
   \<and> fst (process_audio_chunk deaf_services quiet_clock VoicePipeline_init ''x'' ''s1'') =
       Inr \<lparr>audio_data = Some ''mp3'', transcript = '''', ai_response = error_text,
            confidence = 0, processing_time = 3, session_id = ''s1''\<rparr>
   \<and> retrieve_context failing_services ''hello'' None [] = Inl (Exception ''no database'')
   \<and> fst (process_audio_chunk failing_services quiet_clock VoicePipeline_init ''x'' ''s1'') =
       Inr \<lparr>audio_data = Some ''mp3'', transcript = '''', ai_response = error_text,
            confidence = 0, processing_time = 3, session_id = ''s1''\<rparr>
   \<and> generate_response speechless_services ''hello'' '''' [] get_customer_service_prompt =
       Inl (Exception ''no model'')
   \<and> fst (process_audio_chunk speechless_services quiet_clock VoicePipeline_init ''x'' ''s1'') =
       Inr \<lparr>audio_data = Some ''mp3'', transcript = '''', ai_response = error_text,
            confidence = 0, processing_time = 3, session_id = ''s1''\<rparr>"
proof -
  let ?tr = "\<lparr>tr_transcript = Some ''hello'', tr_confidence = Some (1 :: real)\<rparr>"
  note d = process_audio_chunk_total
    [of deaf_services quiet_clock VoicePipeline_init "''x''" "''s1''"]
  note f = process_audio_chunk_total
    [of failing_services quiet_clock VoicePipeline_init "''x''" "''s1''"]
  note s = process_audio_chunk_total
    [of speechless_services quiet_clock VoicePipeline_init "''x''" "''s1''"]
  have a: "transcribe_audio_chunk deaf_services ''x'' = Inl (Exception ''no connection'')"
    by (simp add: deaf_services_def)
  have b: "fst (process_audio_chunk deaf_services quiet_clock VoicePipeline_init ''x'' ''s1'') =
       Inr \<lparr>audio_data = Some ''mp3'', transcript = '''', ai_response = error_text,
            confidence = 0, processing_time = 3, session_id = ''s1''\<rparr>"
    using conjunct1 [OF conjunct2 [OF d], rule_format, of "Exception ''no connection''"] a
    by (simp add: deaf_services_def hello_services_def quiet_clock_def)
  have c: "retrieve_context failing_services ''hello'' None [] = Inl (Exception ''no database'')"
    by (simp add: failing_services_def)
  have e: "fst (process_audio_chunk failing_services quiet_clock VoicePipeline_init ''x'' ''s1'') =
       Inr \<lparr>audio_data = Some ''mp3'', transcript = '''', ai_response = error_text,
            confidence = 0, processing_time = 3, session_id = ''s1''\<rparr>"
    using conjunct1 [OF conjunct2 [OF conjunct2 [OF f]], rule_format,
        of ?tr "''hello''" "fresh_context 11" "Exception ''no database''"]
    by (simp add: failing_services_def hello_services_def quiet_clock_def VoicePipeline_init_def
        fresh_context_def)
  have g: "generate_response speechless_services ''hello'' '''' [] get_customer_service_prompt =
       Inl (Exception ''no model'')"
    by (simp add: speechless_services_def)
  have h: "fst (process_audio_chunk speechless_services quiet_clock VoicePipeline_init ''x'' ''s1'') =
       Inr \<lparr>audio_data = Some ''mp3'', transcript = '''', ai_response = error_text,
            confidence = 0, processing_time = 3, session_id = ''s1''\<rparr>"
    using conjunct2 [OF conjunct2 [OF conjunct2 [OF s]], rule_format,
        of ?tr "''hello''" "fresh_context 11" "''''" "Exception ''no model''"]
    by (simp add: speechless_services_def hello_services_def quiet_clock_def
        VoicePipeline_init_def fresh_context_def)
  show ?thesis
    using a b c e g h by simp
qed

lemma try_block_low_confidence:
  assumes "transcribe_audio_chunk svc audio = Inr (Some tr)"
      and "tr_transcript tr = Some t" and "t \<noteq> []"
      and "(case tr_confidence tr of None \<Rightarrow> 0 | Some x \<Rightarrow> x) < min_confidence_threshold p"
  shows "try_block svc clk p audio sid =
     (Inr \<lparr>audio_data = (case generate svc clarification_text of Inl x \<Rightarrow> None | Inr a \<Rightarrow> Some a),
           transcript = '''', ai_response = clarification_text, confidence = 0,
           processing_time = clk_end clk - clk_start clk, session_id = sid\<rparr>,
      p, [Transcribe audio, Synthesize clarification_text])"
  using assms
  by (simp add: try_block_def generate_clarification_response_def text_to_speech_returns)

text \<open>
  C2. When the transcription yields a non-empty transcript whose confidence is strictly
  below the pipeline's threshold, the call returns the clarification response (the fixed
  clarification text, confidence 0, empty transcript) from the \<open>try\<close> block itself, not
  from the exception handler; the pipeline is unchanged, and the only calls made are the
  transcription and the synthesis of the clarification text: neither retrieval nor
  generation is called.
\<close>

theorem low_confidence_clarification:
  assumes "transcribe_audio_chunk svc audio = Inr (Some tr)"
      and "tr_transcript tr = Some t" and "t \<noteq> []"
      and "(case tr_confidence tr of None \<Rightarrow> 0 | Some x \<Rightarrow> x) < min_confidence_threshold p"
  shows "process_audio_chunk svc clk p audio sid =
     (Inr \<lparr>audio_data = (case generate svc clarification_text of Inl x \<Rightarrow> None | Inr a \<Rightarrow> Some a),
           transcript = '''', ai_response = clarification_text, confidence = 0,
           processing_time = clk_end clk - clk_start clk, session_id = sid\<rparr>,
      p, [Transcribe audio, Synthesize clarification_text])
   \<and> try_block svc clk p audio sid = process_audio_chunk svc clk p audio sid
   \<and> (\<forall>q u h. Retrieve q u h \<notin> set (snd (snd (process_audio_chunk svc clk p audio sid))))
   \<and> (\<forall>m c h s. Generate m c h s \<notin> set (snd (snd (process_audio_chunk svc clk p audio sid))))"
proof -
  note t = try_block_low_confidence [OF assms, of clk sid]
  show ?thesis
    using process_audio_chunk_cases [OF t] t by simp
qed

theorem low_confidence_clarification_witness:
  "transcribe_audio_chunk (hello_services (1 / 2)) ''x'' =
     Inr (Some \<lparr>tr_transcript = Some ''hello'', tr_confidence = Some (1 / 2)\<rparr>)
   \<and> (1 / 2 :: real) < min_confidence_threshold VoicePipeline_init
   \<and> process_audio_chunk (hello_services (1 / 2)) quiet_clock VoicePipeline_init ''x'' ''s1'' =
     (Inr \<lparr>audio_data = Some ''mp3'', transcript = '''', ai_response = clarification_text,
           confidence = 0, processing_time = 3, session_id = ''s1''\<rparr>,
      VoicePipeline_init, [Transcribe ''x'', Synthesize clarification_text])"
proof -
  let ?tr = "\<lparr>tr_transcript = Some ''hello'', tr_confidence = Some (1 / 2 :: real)\<rparr>"
  have a: "transcribe_audio_chunk (hello_services (1 / 2)) ''x'' = Inr (Some ?tr)"
    by (simp add: hello_services_def)
  have b: "tr_transcript ?tr = Some ''hello''" by simp
  have c: "''hello'' \<noteq> []" by simp
  have d: "(case tr_confidence ?tr of None \<Rightarrow> 0 | Some x \<Rightarrow> x) < min_confidence_threshold VoicePipeline_init"
    by (simp add: VoicePipeline_init_def)
  show ?thesis
    using a d low_confidence_clarification [OF a b c d, of quiet_clock "''s1''"]
    by (simp add: hello_services_def quiet_clock_def)
qed

section \<open>The pipeline's session contexts\<close>

lemma get_session_context_stored:
  "get_session_context p sid now = (c, p1) \<Longrightarrow> contexts p1 sid = Some c"
  by (auto simp: get_session_context_def split: option.splits)

lemma get_session_context_again:
  "contexts p1 sid = Some c \<Longrightarrow> get_session_context p1 sid now = (c, p1)"
  by (simp add: get_session_context_def)

lemma update_session_context_contexts:
  assumes "contexts p1 sid = Some c"
  shows "contexts (update_session_context p1 sid t reply now1 now2) =
     (contexts p1)(sid \<mapsto>
        c\<lparr>history := drop (length (history c) + 2 - 20)
                        (history c @ [\<lparr>role = ''user'', content = t\<rparr>,
                                      \<lparr>role = ''assistant'', content = reply\<rparr>]),
          ctx_total_interactions := ctx_total_interactions c + 1,
          last_interaction := Some now2\<rparr>)"
  using assms
  by (simp add: update_session_context_def get_session_context_again Let_def py_last_n_def)

lemma try_block_session_id:
  "fst (try_block svc clk p audio sid) = Inr r \<Longrightarrow> session_id r = sid"
  by (auto simp: try_block_def answer_def generate_clarification_response_def empty_response_def
        text_to_speech_returns Let_def
      split: sum.splits option.splits if_splits prod.splits)

lemma process_audio_chunk_session_id:
  "\<exists>r. fst (process_audio_chunk svc clk p audio sid) = Inr r \<and> session_id r = sid"
proof -
  obtain res p' calls where t: "try_block svc clk p audio sid = (res, p', calls)"
    by (cases "try_block svc clk p audio sid")
  show ?thesis
  proof (cases res)
    case (Inl e)
    then show ?thesis
      using process_audio_chunk_cases [OF t] by simp
  next
    case (Inr r)
    then have "session_id r = sid"
      using try_block_session_id [of svc clk p audio sid r] t by simp
    then show ?thesis
      using process_audio_chunk_cases [OF t] Inr by simp
  qed
qed

lemma answer_fresh:
  assumes "contexts p sid = None"
  shows "answer svc clk (p\<lparr>contexts := (contexts p)(sid \<mapsto> fresh_context (clk_context clk))\<rparr>) sid t c =
         answer svc clk p sid t c"
  using assms by (simp add: answer_def get_session_context_def)

lemma try_block_fresh:
  assumes "contexts p sid = None"
  shows "fst (try_block svc clk (p\<lparr>contexts := (contexts p)(sid \<mapsto> fresh_context (clk_context clk))\<rparr>) audio sid)
           = fst (try_block svc clk p audio sid)
       \<and> snd (snd (try_block svc clk (p\<lparr>contexts := (contexts p)(sid \<mapsto> fresh_context (clk_context clk))\<rparr>) audio sid))
           = snd (snd (try_block svc clk p audio sid))"
  by (simp add: try_block_def answer_fresh [OF assms] Let_def
      split: sum.splits option.splits prod.splits)

lemma process_audio_chunk_fst_calls:
  "fst (process_audio_chunk svc clk p audio sid) =
     (case fst (try_block svc clk p audio sid) of
        Inr r \<Rightarrow> Inr r
      | Inl e \<Rightarrow> Inr \<lparr>audio_data = (case generate svc error_text of Inl x \<Rightarrow> None | Inr a \<Rightarrow> Some a),
                transcript = '''', ai_response = error_text, confidence = 0,
                processing_time = clk_end clk - clk_start clk, session_id = sid\<rparr>)
   \<and> snd (snd (process_audio_chunk svc clk p audio sid)) =
     (case fst (try_block svc clk p audio sid) of
        Inr r \<Rightarrow> snd (snd (try_block svc clk p audio sid))
      | Inl e \<Rightarrow> snd (snd (try_block svc clk p audio sid)) @ [Synthesize error_text])"
proof -
  obtain res p' calls where t: "try_block svc clk p audio sid = (res, p', calls)"
    by (cases "try_block svc clk p audio sid")
  show ?thesis
    using process_audio_chunk_cases [OF t] t by (cases res) simp_all
qed

lemma process_audio_chunk_returns:
  assumes "transcribe_audio_chunk svc audio = Inr (Some tr)"
      and "tr_transcript tr = Some t" and "t \<noteq> []"
      and "\<not> (case tr_confidence tr of None \<Rightarrow> 0 | Some x \<Rightarrow> x) < min_confidence_threshold p"
      and "ctx = (case contexts p sid of None \<Rightarrow> fresh_context (clk_context clk) | Some c \<Rightarrow> c)"
      and "retrieve_context svc t (ctx_user_id ctx) (history ctx) = Inr rag"
      and "generate_response svc t rag (history ctx) get_customer_service_prompt = Inr gen"
      and "reply = (case gen of None \<Rightarrow> apology_text | Some r \<Rightarrow> if r = [] then apology_text else r)"
  shows "process_audio_chunk svc clk p audio sid =
     (Inr \<lparr>audio_data = (case generate svc (optimize_for_voice reply) of
                           Inl x \<Rightarrow> None | Inr a \<Rightarrow> Some a),
           transcript = t, ai_response = reply,
           confidence = (case tr_confidence tr of None \<Rightarrow> 0 | Some x \<Rightarrow> x),
           processing_time = clk_end clk - clk_start clk, session_id = sid\<rparr>,
      update_session_context (p\<lparr>contexts := (contexts p)(sid \<mapsto> ctx)\<rparr>) sid t reply
        (clk_context clk) (clk_update clk),
      [Transcribe audio, Retrieve t (ctx_user_id ctx) (history ctx),
       Generate t rag (history ctx) get_customer_service_prompt,
       Synthesize (optimize_for_voice reply)])"
proof -
  have g: "get_session_context p sid (clk_context clk) =
      (ctx, p\<lparr>contexts := (contexts p)(sid \<mapsto> ctx)\<rparr>)"
    unfolding assms(5) by (rule get_session_context_value)
  note a = answer_returns [OF g assms(6) assms(7),
      of "case tr_confidence tr of None \<Rightarrow> 0 | Some x \<Rightarrow> x"]
  have t: "try_block svc clk p audio sid =
     (Inr \<lparr>audio_data = (case generate svc (optimize_for_voice reply) of
                           Inl x \<Rightarrow> None | Inr a \<Rightarrow> Some a),
           transcript = t, ai_response = reply,
           confidence = (case tr_confidence tr of None \<Rightarrow> 0 | Some x \<Rightarrow> x),
           processing_time = clk_end clk - clk_start clk, session_id = sid\<rparr>,
      update_session_context (p\<lparr>contexts := (contexts p)(sid \<mapsto> ctx)\<rparr>) sid t reply
        (clk_context clk) (clk_update clk),
      [Transcribe audio, Retrieve t (ctx_user_id ctx) (history ctx),
       Generate t rag (history ctx) get_customer_service_prompt,
       Synthesize (optimize_for_voice reply)])"
    unfolding try_block_answer [OF assms(1-4)] a assms(8) by simp
  show ?thesis
    using process_audio_chunk_cases [OF t] by simp
qed

lemma process_audio_chunk_unknown_session:
  assumes "contexts p sid = None"
      and "transcribe_audio_chunk svc audio = Inr (Some tr)"
      and "tr_transcript tr = Some t" and "t \<noteq> []"
      and "\<not> (case tr_confidence tr of None \<Rightarrow> 0 | Some x \<Rightarrow> x) < min_confidence_threshold p"
  shows "take 2 (snd (snd (process_audio_chunk svc clk p audio sid))) =
       [Transcribe audio, Retrieve t None []]"
    and "contexts (fst (snd (process_audio_chunk svc clk p audio sid))) =
       (contexts p)(sid \<mapsto>
          (case retrieve_context svc t None [] of
             Inl e \<Rightarrow>
                 \<lparr>history = [], ctx_user_id = None, ctx_start_time = clk_context clk,
                  ctx_total_interactions = 0, last_interaction = None\<rparr>
           | Inr rag \<Rightarrow>
               (case generate_response svc t rag [] get_customer_service_prompt of
                  Inl e \<Rightarrow>
                      \<lparr>history = [], ctx_user_id = None, ctx_start_time = clk_context clk,
                       ctx_total_interactions = 0, last_interaction = None\<rparr>
                | Inr gen \<Rightarrow>
                    \<lparr>history =
                       [\<lparr>role = ''user'', content = t\<rparr>,
                        \<lparr>role = ''assistant'',
                         content = (case gen of None \<Rightarrow> apology_text
                                    | Some r \<Rightarrow> if r = [] then apology_text else r)\<rparr>],
                     ctx_user_id = None, ctx_start_time = clk_context clk,
                     ctx_total_interactions = 1, last_interaction = Some (clk_update clk)\<rparr>)))"
proof -
  define ctx where "ctx = fresh_context (clk_context clk)"
  have c: "ctx = (case contexts p sid of None \<Rightarrow> fresh_context (clk_context clk) | Some c \<Rightarrow> c)"
    using assms(1) by (simp add: ctx_def)
  have u: "ctx_user_id ctx = None" and h: "history ctx = []"
    by (simp_all add: ctx_def fresh_context_def)
  have s: "contexts (p\<lparr>contexts := (contexts p)(sid \<mapsto> ctx)\<rparr>) sid = Some ctx"
    by simp
  have both: "take 2 (snd (snd (process_audio_chunk svc clk p audio sid))) =
       [Transcribe audio, Retrieve t None []]
     \<and> contexts (fst (snd (process_audio_chunk svc clk p audio sid))) =
       (contexts p)(sid \<mapsto>
          (case retrieve_context svc t None [] of
             Inl e \<Rightarrow>
                 \<lparr>history = [], ctx_user_id = None, ctx_start_time = clk_context clk,
                  ctx_total_interactions = 0, last_interaction = None\<rparr>
           | Inr rag \<Rightarrow>
               (case generate_response svc t rag [] get_customer_service_prompt of
                  Inl e \<Rightarrow>
                      \<lparr>history = [], ctx_user_id = None, ctx_start_time = clk_context clk,
                       ctx_total_interactions = 0, last_interaction = None\<rparr>
                | Inr gen \<Rightarrow>
                    \<lparr>history =
                       [\<lparr>role = ''user'', content = t\<rparr>,
                        \<lparr>role = ''assistant'',
                         content = (case gen of None \<Rightarrow> apology_text
                                    | Some r \<Rightarrow> if r = [] then apology_text else r)\<rparr>],
                     ctx_user_id = None, ctx_start_time = clk_context clk,
                     ctx_total_interactions = 1, last_interaction = Some (clk_update clk)\<rparr>)))"
  proof (cases "retrieve_context svc t None []")
    case (Inl e)
    then have r: "retrieve_context svc t (ctx_user_id ctx) (history ctx) = Inl e"
      by (simp add: u h)
    show ?thesis
      unfolding process_audio_chunk_retrieval_raises [OF assms(2-5) c r]
      by (simp add: Inl u h) (simp add: ctx_def fresh_context_def)
  next
    case (Inr rag)
    then have r: "retrieve_context svc t (ctx_user_id ctx) (history ctx) = Inr rag"
      by (simp add: u h)
    show ?thesis
    proof (cases "generate_response svc t rag [] get_customer_service_prompt")
      case (Inl e)
      then have g: "generate_response svc t rag (history ctx) get_customer_service_prompt = Inl e"
        by (simp add: h)
      show ?thesis
        unfolding process_audio_chunk_generation_raises [OF assms(2-5) c r g]
        by (simp add: Inl Inr u h) (simp add: ctx_def fresh_context_def)
    next
      case Inr2: (Inr gen)
      then have g: "generate_response svc t rag (history ctx) get_customer_service_prompt = Inr gen"
        by (simp add: h)
      note pr = process_audio_chunk_returns [OF assms(2-5) c r g refl]
      note up = update_session_context_contexts [OF s,
          of t "case gen of None \<Rightarrow> apology_text | Some r \<Rightarrow> if r = [] then apology_text else r"
             "clk_context clk" "clk_update clk"]
      show ?thesis
        unfolding pr
        by (simp add: Inr Inr2 u h up) (simp add: ctx_def fresh_context_def)
    qed
  qed
  show "take 2 (snd (snd (process_audio_chunk svc clk p audio sid))) =
       [Transcribe audio, Retrieve t None []]"
    using both by (rule conjunct1)
  show "contexts (fst (snd (process_audio_chunk svc clk p audio sid))) =
       (contexts p)(sid \<mapsto>
          (case retrieve_context svc t None [] of
             Inl e \<Rightarrow>
                 \<lparr>history = [], ctx_user_id = None, ctx_start_time = clk_context clk,
                  ctx_total_interactions = 0, last_interaction = None\<rparr>
           | Inr rag \<Rightarrow>
               (case generate_response svc t rag [] get_customer_service_prompt of
                  Inl e \<Rightarrow>
                      \<lparr>history = [], ctx_user_id = None, ctx_start_time = clk_context clk,
                       ctx_total_interactions = 0, last_interaction = None\<rparr>
                | Inr gen \<Rightarrow>
                    \<lparr>history =
                       [\<lparr>role = ''user'', content = t\<rparr>,
                        \<lparr>role = ''assistant'',
                         content = (case gen of None \<Rightarrow> apology_text
                                    | Some r \<Rightarrow> if r = [] then apology_text else r)\<rparr>],
                     ctx_user_id = None, ctx_start_time = clk_context clk,
                     ctx_total_interactions = 1, last_interaction = Some (clk_update clk)\<rparr>)))"
    using both by (rule conjunct2)
qed

text \<open>
  C10. A session id the pipeline has no context for is not rejected. The first access
  creates and stores a fresh context (empty history, no user id, zero interactions);
  the call returns a response for that session id, and its response and its calls are
  those of the same call on a pipeline that already held the fresh context. The access
  is step 2 of the call, reached with a non-empty transcript whose confidence is not
  below the threshold: then the retrieval is called with no user id and the empty
  history, and after the call the pipeline's store holds a context for the session id,
  the fresh one when the retrieval or the generation raised, and the fresh one extended
  by the exchange, with one interaction, when the call answered.
\<close>

theorem unknown_session_lazily_created:
  assumes "contexts p sid = None"
  shows "get_session_context p sid now =
       (\<lparr>history = [], ctx_user_id = None, ctx_start_time = now,
         ctx_total_interactions = 0, last_interaction = None\<rparr>,
        p\<lparr>contexts := (contexts p)(sid \<mapsto>
           \<lparr>history = [], ctx_user_id = None, ctx_start_time = now,
            ctx_total_interactions = 0, last_interaction = None\<rparr>)\<rparr>)
     \<and> (\<exists>r. fst (process_audio_chunk svc clk p audio sid) = Inr r \<and> session_id r = sid)
     \<and> fst (process_audio_chunk svc clk p audio sid) =
         fst (process_audio_chunk svc clk
               (p\<lparr>contexts := (contexts p)(sid \<mapsto> fresh_context (clk_context clk))\<rparr>) audio sid)
     \<and> snd (snd (process_audio_chunk svc clk p audio sid)) =
         snd (snd (process_audio_chunk svc clk
               (p\<lparr>contexts := (contexts p)(sid \<mapsto> fresh_context (clk_context clk))\<rparr>) audio sid))
     \<and> (\<forall>tr t.
          transcribe_audio_chunk svc audio = Inr (Some tr)
          \<and> tr_transcript tr = Some t \<and> t \<noteq> []
          \<and> \<not> (case tr_confidence tr of None \<Rightarrow> 0 | Some x \<Rightarrow> x) < min_confidence_threshold p
          \<longrightarrow>
          take 2 (snd (snd (process_audio_chunk svc clk p audio sid))) =
            [Transcribe audio, Retrieve t None []]
          \<and> contexts (fst (snd (process_audio_chunk svc clk p audio sid))) =
            (contexts p)(sid \<mapsto>
               (case retrieve_context svc t None [] of
                  Inl e \<Rightarrow>
                      \<lparr>history = [], ctx_user_id = None, ctx_start_time = clk_context clk,
                       ctx_total_interactions = 0, last_interaction = None\<rparr>
                | Inr rag \<Rightarrow>
                    (case generate_response svc t rag [] get_customer_service_prompt of
                       Inl e \<Rightarrow>
                           \<lparr>history = [], ctx_user_id = None, ctx_start_time = clk_context clk,
                            ctx_total_interactions = 0, last_interaction = None\<rparr>
                     | Inr gen \<Rightarrow>
                         \<lparr>history =
                            [\<lparr>role = ''user'', content = t\<rparr>,
                             \<lparr>role = ''assistant'',
                              content = (case gen of None \<Rightarrow> apology_text
                                         | Some r \<Rightarrow> if r = [] then apology_text else r)\<rparr>],
                          ctx_user_id = None, ctx_start_time = clk_context clk,
                          ctx_total_interactions = 1, last_interaction = Some (clk_update clk)\<rparr>))))"
proof -
  have a: "get_session_context p sid now =
       (\<lparr>history = [], ctx_user_id = None, ctx_start_time = now,
         ctx_total_interactions = 0, last_interaction = None\<rparr>,
        p\<lparr>contexts := (contexts p)(sid \<mapsto>
           \<lparr>history = [], ctx_user_id = None, ctx_start_time = now,
            ctx_total_interactions = 0, last_interaction = None\<rparr>)\<rparr>)"
    using assms by (simp add: get_session_context_def fresh_context_def)
  note b = process_audio_chunk_session_id [of svc clk p audio sid]
  note f = try_block_fresh [OF assms, of svc clk audio]
  note c1 = process_audio_chunk_fst_calls [of svc clk p audio sid]
  note c2 = process_audio_chunk_fst_calls [of svc clk
      "p\<lparr>contexts := (contexts p)(sid \<mapsto> fresh_context (clk_context clk))\<rparr>" audio sid]
  have c: "fst (process_audio_chunk svc clk p audio sid) =
         fst (process_audio_chunk svc clk
               (p\<lparr>contexts := (contexts p)(sid \<mapsto> fresh_context (clk_context clk))\<rparr>) audio sid)"
    using c1 c2 f by simp
  have d: "snd (snd (process_audio_chunk svc clk p audio sid)) =
         snd (snd (process_audio_chunk svc clk
               (p\<lparr>contexts := (contexts p)(sid \<mapsto> fresh_context (clk_context clk))\<rparr>) audio sid))"
    using c1 c2 f by (simp split: sum.splits)
  have e: "\<forall>tr t.
          transcribe_audio_chunk svc audio = Inr (Some tr)
          \<and> tr_transcript tr = Some t \<and> t \<noteq> []
          \<and> \<not> (case tr_confidence tr of None \<Rightarrow> 0 | Some x \<Rightarrow> x) < min_confidence_threshold p
          \<longrightarrow>
          take 2 (snd (snd (process_audio_chunk svc clk p audio sid))) =
            [Transcribe audio, Retrieve t None []]
          \<and> contexts (fst (snd (process_audio_chunk svc clk p audio sid))) =
            (contexts p)(sid \<mapsto>
               (case retrieve_context svc t None [] of
                  Inl e \<Rightarrow>
                      \<lparr>history = [], ctx_user_id = None, ctx_start_time = clk_context clk,
                       ctx_total_interactions = 0, last_interaction = None\<rparr>
                | Inr rag \<Rightarrow>
                    (case generate_response svc t rag [] get_customer_service_prompt of
                       Inl e \<Rightarrow>
                           \<lparr>history = [], ctx_user_id = None, ctx_start_time = clk_context clk,
                            ctx_total_interactions = 0, last_interaction = None\<rparr>
                     | Inr gen \<Rightarrow>
                         \<lparr>history =
                            [\<lparr>role = ''user'', content = t\<rparr>,
                             \<lparr>role = ''assistant'',
                              content = (case gen of None \<Rightarrow> apology_text
                                         | Some r \<Rightarrow> if r = [] then apology_text else r)\<rparr>],
                          ctx_user_id = None, ctx_start_time = clk_context clk,
                          ctx_total_interactions = 1, last_interaction = Some (clk_update clk)\<rparr>)))"
  proof (intro allI impI)
    fix tr t
    assume h: "transcribe_audio_chunk svc audio = Inr (Some tr)
          \<and> tr_transcript tr = Some t \<and> t \<noteq> []
          \<and> \<not> (case tr_confidence tr of None \<Rightarrow> 0 | Some x \<Rightarrow> x) < min_confidence_threshold p"
    then have h1: "transcribe_audio_chunk svc audio = Inr (Some tr)"
      and h2: "tr_transcript tr = Some t" and h3: "t \<noteq> []"
      and h4: "\<not> (case tr_confidence tr of None \<Rightarrow> 0 | Some x \<Rightarrow> x) < min_confidence_threshold p"
      by blast+
    show "take 2 (snd (snd (process_audio_chunk svc clk p audio sid))) =
            [Transcribe audio, Retrieve t None []]
          \<and> contexts (fst (snd (process_audio_chunk svc clk p audio sid))) =
            (contexts p)(sid \<mapsto>
               (case retrieve_context svc t None [] of
                  Inl e \<Rightarrow>
                      \<lparr>history = [], ctx_user_id = None, ctx_start_time = clk_context clk,
                       ctx_total_interactions = 0, last_interaction = None\<rparr>
                | Inr rag \<Rightarrow>
                    (case generate_response svc t rag [] get_customer_service_prompt of
                       Inl e \<Rightarrow>
                           \<lparr>history = [], ctx_user_id = None, ctx_start_time = clk_context clk,
                            ctx_total_interactions = 0, last_interaction = None\<rparr>
                     | Inr gen \<Rightarrow>
                         \<lparr>history =
                            [\<lparr>role = ''user'', content = t\<rparr>,
                             \<lparr>role = ''assistant'',
                              content = (case gen of None \<Rightarrow> apology_text
                                         | Some r \<Rightarrow> if r = [] then apology_text else r)\<rparr>],
                          ctx_user_id = None, ctx_start_time = clk_context clk,
                          ctx_total_interactions = 1, last_interaction = Some (clk_update clk)\<rparr>)))"
      using process_audio_chunk_unknown_session [OF assms h1 h2 h3 h4, of clk]
      by (rule conjI)
  qed
  show ?thesis
    using a b c d e by blast
qed

lemma process_hello:
  "process_audio_chunk (hello_services (9 / 10)) quiet_clock VoicePipeline_init ''x'' ''s1'' =
     (Inr \<lparr>audio_data = Some ''mp3'', transcript = ''hello'', ai_response = ''hi there'',
           confidence = 9 / 10, processing_time = 3, session_id = ''s1''\<rparr>,
      VoicePipeline_init\<lparr>contexts := [''s1'' \<mapsto>
         \<lparr>history = [\<lparr>role = ''user'', content = ''hello''\<rparr>,
                     \<lparr>role = ''assistant'', content = ''hi there''\<rparr>],
          ctx_user_id = None, ctx_start_time = 11, ctx_total_interactions = 1,
          last_interaction = Some 12\<rparr>]\<rparr>,
      [Transcribe ''x'', Retrieve ''hello'' None [],
       Generate ''hello'' '''' [] get_customer_service_prompt,
       Synthesize (optimize_for_voice ''hi there'')])"
proof -
  let ?svc = "hello_services (9 / 10)"
  let ?tr = "\<lparr>tr_transcript = Some ''hello'', tr_confidence = Some (9 / 10 :: real)\<rparr>"
  have g: "get_session_context VoicePipeline_init ''s1'' (clk_context quiet_clock) =
      (fresh_context 11, VoicePipeline_init\<lparr>contexts := [''s1'' \<mapsto> fresh_context 11]\<rparr>)"
    by (simp add: get_session_context_def VoicePipeline_init_def quiet_clock_def)
  have r: "retrieve_context ?svc ''hello'' (ctx_user_id (fresh_context 11))
      (history (fresh_context 11)) = Inr ''''"
    by (simp add: hello_services_def)
  have n: "generate_response ?svc ''hello'' '''' (history (fresh_context 11))
      get_customer_service_prompt = Inr (Some ''hi there'')"
    by (simp add: hello_services_def)
  note a = answer_returns [OF g r n, of "9 / 10"]
  have t1: "transcribe_audio_chunk ?svc ''x'' = Inr (Some ?tr)"
    by (simp add: hello_services_def)
  have t2: "tr_transcript ?tr = Some ''hello''" by simp
  have t3: "''hello'' \<noteq> []" by simp
  have t4: "\<not> (case tr_confidence ?tr of None \<Rightarrow> 0 | Some x \<Rightarrow> x)
      < min_confidence_threshold VoicePipeline_init"
    by (simp add: VoicePipeline_init_def)
  note tb = try_block_answer [OF t1 t2 t3 t4, of quiet_clock "''s1''"]
  have u: "update_session_context (VoicePipeline_init\<lparr>contexts := [''s1'' \<mapsto> fresh_context 11]\<rparr>)
      ''s1'' ''hello'' ''hi there'' (clk_context quiet_clock) (clk_update quiet_clock) =
     VoicePipeline_init\<lparr>contexts := [''s1'' \<mapsto>
         \<lparr>history = [\<lparr>role = ''user'', content = ''hello''\<rparr>,
                     \<lparr>role = ''assistant'', content = ''hi there''\<rparr>],
          ctx_user_id = None, ctx_start_time = 11, ctx_total_interactions = 1,
          last_interaction = Some 12\<rparr>]\<rparr>"
    by (simp add: update_session_context_def get_session_context_def Let_def fresh_context_def
        quiet_clock_def VoicePipeline_init_def)
  have tb': "try_block ?svc quiet_clock VoicePipeline_init ''x'' ''s1'' =
     (Inr \<lparr>audio_data = Some ''mp3'', transcript = ''hello'', ai_response = ''hi there'',
           confidence = 9 / 10, processing_time = 3, session_id = ''s1''\<rparr>,
      VoicePipeline_init\<lparr>contexts := [''s1'' \<mapsto>
         \<lparr>history = [\<lparr>role = ''user'', content = ''hello''\<rparr>,
                     \<lparr>role = ''assistant'', content = ''hi there''\<rparr>],
          ctx_user_id = None, ctx_start_time = 11, ctx_total_interactions = 1,
          last_interaction = Some 12\<rparr>]\<rparr>,
      [Transcribe ''x'', Retrieve ''hello'' None [],
       Generate ''hello'' '''' [] get_customer_service_prompt,
       Synthesize (optimize_for_voice ''hi there'')])"
    unfolding tb using a u
    by (simp add: fresh_context_def) (simp add: hello_services_def quiet_clock_def)
  show ?thesis
    using process_audio_chunk_cases [OF tb'] by simp
qed

lemma process_failing:
  "process_audio_chunk failing_services quiet_clock VoicePipeline_init ''x'' ''s1'' =
     (Inr \<lparr>audio_data = Some ''mp3'', transcript = '''', ai_response = error_text,
           confidence = 0, processing_time = 3, session_id = ''s1''\<rparr>,
      VoicePipeline_init\<lparr>contexts := [''s1'' \<mapsto> fresh_context 11]\<rparr>,
      [Transcribe ''x'', Retrieve ''hello'' None [], Synthesize error_text])"
  using process_audio_chunk_cases [OF try_block_failing]
  by (simp add: failing_services_def hello_services_def quiet_clock_def)

theorem unknown_session_lazily_created_witness:
  "contexts VoicePipeline_init ''s1'' = None
   \<and> get_session_context VoicePipeline_init ''s1'' 11 =
       (\<lparr>history = [], ctx_user_id = None, ctx_start_time = 11,
         ctx_total_interactions = 0, last_interaction = None\<rparr>,
        VoicePipeline_init\<lparr>contexts := [''s1'' \<mapsto>
           \<lparr>history = [], ctx_user_id = None, ctx_start_time = 11,
            ctx_total_interactions = 0, last_interaction = None\<rparr>]\<rparr>)
   \<and> fst (process_audio_chunk (hello_services (9 / 10)) quiet_clock
         (VoicePipeline_init\<lparr>contexts := [''s1'' \<mapsto> fresh_context (clk_context quiet_clock)]\<rparr>)
         ''x'' ''s1'') =
       Inr \<lparr>audio_data = Some ''mp3'', transcript = ''hello'', ai_response = ''hi there'',
            confidence = 9 / 10, processing_time = 3, session_id = ''s1''\<rparr>
   \<and> transcribe_audio_chunk (hello_services (9 / 10)) ''x'' =
       Inr (Some \<lparr>tr_transcript = Some ''hello'', tr_confidence = Some (9 / 10)\<rparr>)
   \<and> \<not> (9 / 10 :: real) < min_confidence_threshold VoicePipeline_init
   \<and> take 2 (snd (snd (process_audio_chunk (hello_services (9 / 10)) quiet_clock
         VoicePipeline_init ''x'' ''s1''))) =
       [Transcribe ''x'', Retrieve ''hello'' None []]
   \<and> contexts (fst (snd (process_audio_chunk (hello_services (9 / 10)) quiet_clock
         VoicePipeline_init ''x'' ''s1''))) =
       [''s1'' \<mapsto>
          \<lparr>history = [\<lparr>role = ''user'', content = ''hello''\<rparr>,
                      \<lparr>role = ''assistant'', content = ''hi there''\<rparr>],
           ctx_user_id = None, ctx_start_time = 11, ctx_total_interactions = 1,
           last_interaction = Some 12\<rparr>]
   \<and> contexts (fst (snd (process_audio_chunk failing_services quiet_clock
         VoicePipeline_init ''x'' ''s1''))) =
       [''s1'' \<mapsto>
          \<lparr>history = [], ctx_user_id = None, ctx_start_time = 11,
           ctx_total_interactions = 0, last_interaction = None\<rparr>]"
proof -
  let ?hi = "\<lparr>tr_transcript = Some ''hello'', tr_confidence = Some (9 / 10 :: real)\<rparr>"
  let ?one = "\<lparr>tr_transcript = Some ''hello'', tr_confidence = Some (1 :: real)\<rparr>"
  have h: "contexts VoicePipeline_init ''s1'' = None"
    by (simp add: VoicePipeline_init_def)
  have e: "contexts VoicePipeline_init = Map.empty"
    by (simp add: VoicePipeline_init_def)
  note u = unknown_session_lazily_created
    [OF h, of 11 "hello_services (9 / 10)" quiet_clock "''x''"]
  note v = unknown_session_lazily_created
    [OF h, of 11 failing_services quiet_clock "''x''"]
  have a: "get_session_context VoicePipeline_init ''s1'' 11 =
       (\<lparr>history = [], ctx_user_id = None, ctx_start_time = 11,
         ctx_total_interactions = 0, last_interaction = None\<rparr>,
        VoicePipeline_init\<lparr>contexts := [''s1'' \<mapsto>
           \<lparr>history = [], ctx_user_id = None, ctx_start_time = 11,
            ctx_total_interactions = 0, last_interaction = None\<rparr>]\<rparr>)"
    using conjunct1 [OF u] by (simp add: e)
  have b: "fst (process_audio_chunk (hello_services (9 / 10)) quiet_clock
         (VoicePipeline_init\<lparr>contexts := [''s1'' \<mapsto> fresh_context (clk_context quiet_clock)]\<rparr>)
         ''x'' ''s1'') =
       Inr \<lparr>audio_data = Some ''mp3'', transcript = ''hello'', ai_response = ''hi there'',
            confidence = 9 / 10, processing_time = 3, session_id = ''s1''\<rparr>"
    using conjunct1 [OF conjunct2 [OF conjunct2 [OF u]]] by (simp add: process_hello e)
  have t1: "transcribe_audio_chunk (hello_services (9 / 10)) ''x'' = Inr (Some ?hi)"
    by (simp add: hello_services_def)
  have t2: "\<not> (9 / 10 :: real) < min_confidence_threshold VoicePipeline_init"
    by (simp add: VoicePipeline_init_def)
  note w = conjunct2 [OF conjunct2 [OF conjunct2 [OF conjunct2 [OF u]]], rule_format,
      of ?hi "''hello''"]
  have c: "take 2 (snd (snd (process_audio_chunk (hello_services (9 / 10)) quiet_clock
         VoicePipeline_init ''x'' ''s1''))) =
       [Transcribe ''x'', Retrieve ''hello'' None []]"
    using w t1 t2 by simp
  have d: "contexts (fst (snd (process_audio_chunk (hello_services (9 / 10)) quiet_clock
         VoicePipeline_init ''x'' ''s1''))) =
       [''s1'' \<mapsto>
          \<lparr>history = [\<lparr>role = ''user'', content = ''hello''\<rparr>,
                      \<lparr>role = ''assistant'', content = ''hi there''\<rparr>],
           ctx_user_id = None, ctx_start_time = 11, ctx_total_interactions = 1,
           last_interaction = Some 12\<rparr>]"
    using w t1 t2 by (simp add: e) (simp add: hello_services_def quiet_clock_def)
  have t3: "transcribe_audio_chunk failing_services ''x'' = Inr (Some ?one)"
    by (simp add: failing_services_def hello_services_def)
  have t4: "\<not> (1 :: real) < min_confidence_threshold VoicePipeline_init"
    by (simp add: VoicePipeline_init_def)
  note x = conjunct2 [OF conjunct2 [OF conjunct2 [OF conjunct2 [OF v]]], rule_format,
      of ?one "''hello''"]
  have f: "contexts (fst (snd (process_audio_chunk failing_services quiet_clock
         VoicePipeline_init ''x'' ''s1''))) =
       [''s1'' \<mapsto>
          \<lparr>history = [], ctx_user_id = None, ctx_start_time = 11,
           ctx_total_interactions = 0, last_interaction = None\<rparr>]"
    using x t3 t4 by (simp add: e) (simp add: failing_services_def hello_services_def quiet_clock_def)
  show ?thesis
    using h a b t1 t2 c d f by simp
qed

lemma process_audio_chunk_answered:
  assumes "transcribe_audio_chunk svc audio = Inr (Some tr)"
      and "tr_transcript tr = Some t" and "t \<noteq> []"
      and "\<not> (case tr_confidence tr of None \<Rightarrow> 0 | Some x \<Rightarrow> x) < min_confidence_threshold p"
      and "ctx = (case contexts p sid of None \<Rightarrow> fresh_context (clk_context clk) | Some c \<Rightarrow> c)"
      and "retrieve_context svc t (ctx_user_id ctx) (history ctx) = Inr rag"
      and "generate_response svc t rag (history ctx) get_customer_service_prompt = Inr gen"
      and "reply = (case gen of None \<Rightarrow> apology_text | Some r \<Rightarrow> if r = [] then apology_text else r)"
  shows "fst (process_audio_chunk svc clk p audio sid) =
       Inr \<lparr>audio_data = (case generate svc (optimize_for_voice reply) of
                             Inl x \<Rightarrow> None | Inr a \<Rightarrow> Some a),
            transcript = t, ai_response = reply,
            confidence = (case tr_confidence tr of None \<Rightarrow> 0 | Some x \<Rightarrow> x),
            processing_time = clk_end clk - clk_start clk, session_id = sid\<rparr>"
    and "contexts (fst (snd (process_audio_chunk svc clk p audio sid))) =
       (contexts p)(sid \<mapsto>
          ctx\<lparr>history := drop (length (history ctx) + 2 - 20)
                            (history ctx @ [\<lparr>role = ''user'', content = t\<rparr>,
                                            \<lparr>role = ''assistant'', content = reply\<rparr>]),
              ctx_total_interactions := ctx_total_interactions ctx + 1,
              last_interaction := Some (clk_update clk)\<rparr>)"
proof -
  define p1 where "p1 = p\<lparr>contexts := (contexts p)(sid \<mapsto> ctx)\<rparr>"
  have g: "get_session_context p sid (clk_context clk) = (ctx, p1)"
    unfolding p1_def assms(5) by (rule get_session_context_value)
  have st: "contexts p1 sid = Some ctx"
    by (simp add: p1_def)
  note a = answer_returns [OF g assms(6) assms(7),
      of "case tr_confidence tr of None \<Rightarrow> 0 | Some x \<Rightarrow> x"]
  note tb = try_block_answer [OF assms(1-4), of clk sid]
  obtain res p' calls where t: "try_block svc clk p audio sid = (res, p', calls)"
    by (cases "try_block svc clk p audio sid")
  have res: "res = Inr \<lparr>audio_data = (case generate svc (optimize_for_voice reply) of
                             Inl x \<Rightarrow> None | Inr a \<Rightarrow> Some a),
            transcript = t, ai_response = reply,
            confidence = (case tr_confidence tr of None \<Rightarrow> 0 | Some x \<Rightarrow> x),
            processing_time = clk_end clk - clk_start clk, session_id = sid\<rparr>"
    and p': "p' = update_session_context p1 sid t reply (clk_context clk) (clk_update clk)"
    using t tb a assms(8) by simp_all
  have pr: "process_audio_chunk svc clk p audio sid = (res, p', calls)"
    using process_audio_chunk_cases [OF t] res by simp
  show "fst (process_audio_chunk svc clk p audio sid) =
       Inr \<lparr>audio_data = (case generate svc (optimize_for_voice reply) of
                             Inl x \<Rightarrow> None | Inr a \<Rightarrow> Some a),
            transcript = t, ai_response = reply,
            confidence = (case tr_confidence tr of None \<Rightarrow> 0 | Some x \<Rightarrow> x),
            processing_time = clk_end clk - clk_start clk, session_id = sid\<rparr>"
    using pr res by simp
  show "contexts (fst (snd (process_audio_chunk svc clk p audio sid))) =
       (contexts p)(sid \<mapsto>
          ctx\<lparr>history := drop (length (history ctx) + 2 - 20)
                            (history ctx @ [\<lparr>role = ''user'', content = t\<rparr>,
                                            \<lparr>role = ''assistant'', content = reply\<rparr>]),
              ctx_total_interactions := ctx_total_interactions ctx + 1,
              last_interaction := Some (clk_update clk)\<rparr>)"
    using pr p' update_session_context_contexts [OF st, of t reply "clk_context clk" "clk_update clk"]
    by (simp add: p1_def)
qed

lemma first_session_value: "first_session = new_session ''s1'' ''c1'' None 0"
  by (simp add: first_session_def create_session_def first_clock_def Let_def)

lemma first_app_value:
  "first_app =
     \<lparr>voice_pipeline = VoicePipeline_init,
      conversation_manager =
        ConversationManager_init\<lparr>active_sessions := [(''c1'', new_session ''s1'' ''c1'' None 0)]\<rparr>\<rparr>"
  by (simp add: first_app_def create_session_def first_clock_def Let_def
      ConversationManager_init_def)

lemma on_audio_chunk_first:
  "on_audio_chunk (hello_services (9 / 10)) quiet_clock first_app first_session ''x'' =
     (Inr \<lparr>audio_data = Some ''mp3'', transcript = ''hello'', ai_response = ''hi there'',
           confidence = 9 / 10, processing_time = 3, session_id = ''s1''\<rparr>,
      first_app\<lparr>voice_pipeline :=
        VoicePipeline_init\<lparr>contexts := [''s1'' \<mapsto>
         \<lparr>history = [\<lparr>role = ''user'', content = ''hello''\<rparr>,
                     \<lparr>role = ''assistant'', content = ''hi there''\<rparr>],
          ctx_user_id = None, ctx_start_time = 11, ctx_total_interactions = 1,
          last_interaction = Some 12\<rparr>]\<rparr>\<rparr>)"
proof -
  have s: "sess_id first_session = ''s1''"
    by (simp add: first_session_value new_session_def)
  have v: "voice_pipeline first_app = VoicePipeline_init"
    by (simp add: first_app_value)
  show ?thesis
    by (simp add: on_audio_chunk_def s v process_hello)
qed

text \<open>
  C5, amended. When a call passes the confidence gate and retrieval and generation
  return, the exchange (the transcript and the reply, which is the fixed apology when
  generation returned nothing) is appended to the pipeline's own context for that session
  id, the history is cut to its last 20 entries, that context's interaction counter grows
  by one and its last-interaction time is set. The Session Manager is not touched.
\<close>

theorem exchange_recorded_in_pipeline_context:
  assumes "transcribe_audio_chunk svc audio = Inr (Some tr)"
      and "tr_transcript tr = Some t" and "t \<noteq> []"
      and "\<not> (case tr_confidence tr of None \<Rightarrow> 0 | Some x \<Rightarrow> x)
             < min_confidence_threshold (voice_pipeline a)"
      and "ctx = (case contexts (voice_pipeline a) (sess_id session) of
                    None \<Rightarrow> fresh_context (clk_context clk) | Some c \<Rightarrow> c)"
      and "retrieve_context svc t (ctx_user_id ctx) (history ctx) = Inr rag"
      and "generate_response svc t rag (history ctx) get_customer_service_prompt = Inr gen"
      and "reply = (case gen of None \<Rightarrow> apology_text | Some r \<Rightarrow> if r = [] then apology_text else r)"
  shows "fst (on_audio_chunk svc clk a session audio) =
       Inr \<lparr>audio_data = (case generate svc (optimize_for_voice reply) of
                             Inl x \<Rightarrow> None | Inr a \<Rightarrow> Some a),
            transcript = t, ai_response = reply,
            confidence = (case tr_confidence tr of None \<Rightarrow> 0 | Some x \<Rightarrow> x),
            processing_time = clk_end clk - clk_start clk, session_id = sess_id session\<rparr>
     \<and> contexts (voice_pipeline (snd (on_audio_chunk svc clk a session audio))) =
       (contexts (voice_pipeline a))(sess_id session \<mapsto>
          ctx\<lparr>history := drop (length (history ctx) + 2 - 20)
                            (history ctx @ [\<lparr>role = ''user'', content = t\<rparr>,
                                            \<lparr>role = ''assistant'', content = reply\<rparr>]),
              ctx_total_interactions := ctx_total_interactions ctx + 1,
              last_interaction := Some (clk_update clk)\<rparr>)
     \<and> conversation_manager (snd (on_audio_chunk svc clk a session audio)) =
         conversation_manager a"
proof -
  note p = process_audio_chunk_answered [OF assms]
  obtain res p' calls where
    r: "process_audio_chunk svc clk (voice_pipeline a) audio (sess_id session) = (res, p', calls)"
    by (cases "process_audio_chunk svc clk (voice_pipeline a) audio (sess_id session)")
  have o: "on_audio_chunk svc clk a session audio = (res, a\<lparr>voice_pipeline := p'\<rparr>)"
    by (simp add: on_audio_chunk_def r)
  show ?thesis
    using p r by (simp add: o)
qed

theorem exchange_recorded_in_pipeline_context_witness:
  "transcribe_audio_chunk (hello_services (9 / 10)) ''x'' =
     Inr (Some \<lparr>tr_transcript = Some ''hello'', tr_confidence = Some (9 / 10)\<rparr>)
   \<and> \<not> (9 / 10 :: real) < min_confidence_threshold (voice_pipeline first_app)
   \<and> contexts (voice_pipeline first_app) (sess_id first_session) = None
   \<and> contexts (voice_pipeline
        (snd (on_audio_chunk (hello_services (9 / 10)) quiet_clock first_app first_session ''x'')))
        ''s1'' =
       Some \<lparr>history = [\<lparr>role = ''user'', content = ''hello''\<rparr>,
                        \<lparr>role = ''assistant'', content = ''hi there''\<rparr>],
             ctx_user_id = None, ctx_start_time = 11, ctx_total_interactions = 1,
             last_interaction = Some 12\<rparr>
   \<and> conversation_manager
        (snd (on_audio_chunk (hello_services (9 / 10)) quiet_clock first_app first_session ''x''))
       = conversation_manager first_app"
proof -
  let ?svc = "hello_services (9 / 10)"
  let ?tr = "\<lparr>tr_transcript = Some ''hello'', tr_confidence = Some (9 / 10 :: real)\<rparr>"
  let ?ctx = "fresh_context (clk_context quiet_clock)"
  have s: "sess_id first_session = ''s1''"
    by (simp add: first_session_value new_session_def)
  have v: "voice_pipeline first_app = VoicePipeline_init"
    by (simp add: first_app_value)
  have h1: "transcribe_audio_chunk ?svc ''x'' = Inr (Some ?tr)"
    by (simp add: hello_services_def)
  have h2: "tr_transcript ?tr = Some ''hello''" by simp
  have h3: "''hello'' \<noteq> []" by simp
  have h4: "\<not> (case tr_confidence ?tr of None \<Rightarrow> 0 | Some x \<Rightarrow> x)
      < min_confidence_threshold (voice_pipeline first_app)"
    by (simp add: v VoicePipeline_init_def)
  have h5: "?ctx = (case contexts (voice_pipeline first_app) (sess_id first_session) of
                    None \<Rightarrow> fresh_context (clk_context quiet_clock) | Some c \<Rightarrow> c)"
    by (simp add: v VoicePipeline_init_def)
  have h6: "retrieve_context ?svc ''hello'' (ctx_user_id ?ctx) (history ?ctx) = Inr ''''"
    by (simp add: hello_services_def)
  have h7: "generate_response ?svc ''hello'' '''' (history ?ctx) get_customer_service_prompt
      = Inr (Some ''hi there'')"
    by (simp add: hello_services_def)
  have h8: "''hi there'' = (case Some ''hi there'' of None \<Rightarrow> apology_text
      | Some r \<Rightarrow> if r = [] then apology_text else r)"
    by simp
  note th = exchange_recorded_in_pipeline_context [OF h1 h2 h3 h4 h5 h6 h7 h8]
  have n: "contexts (voice_pipeline first_app) (sess_id first_session) = None"
    by (simp add: v VoicePipeline_init_def)
  show ?thesis
    using h1 h4 n th
    by (simp add: s v VoicePipeline_init_def fresh_context_def quiet_clock_def)
qed

text \<open>
  C5 as stated fails. After the first client connected and one audio chunk was answered
  (transcript ``hello'', reply ``hi there''), the Session Manager still holds, for that
  client, the session as it was created: no exchange in its history, counter 0.
\<close>

theorem exchange_not_in_session_manager_counterexample:
  "fst (on_audio_chunk (hello_services (9 / 10)) quiet_clock first_app first_session ''x'') =
     Inr \<lparr>audio_data = Some ''mp3'', transcript = ''hello'', ai_response = ''hi there'',
          confidence = 9 / 10, processing_time = 3, session_id = ''s1''\<rparr>
   \<and> get_session (conversation_manager
        (snd (on_audio_chunk (hello_services (9 / 10)) quiet_clock first_app first_session ''x'')))
        ''c1'' = Some first_session
   \<and> total_interactions first_session = 0
   \<and> conversation_history first_session = []"
  by (simp add: on_audio_chunk_first)
     (simp add: first_app_value first_session_value get_session_def new_session_def)

section \<open>Doubles\<close>

text \<open>
  Rounding to an integer is off by at most one half, and a number less than one half away
  from an integer rounds to it.
\<close>

lemma round_half_even_error: "\<bar>of_int (round_half_even y) - y\<bar> \<le> 1 / 2"
  unfolding round_half_even_def Let_def by (simp; linarith)

lemma round_half_even_near:
  assumes "\<bar>y - of_int m\<bar> < 1 / 2"
  shows "round_half_even y = m"
proof -
  have "\<bar>of_int (round_half_even y) - y\<bar> \<le> 1 / 2"
    by (rule round_half_even_error)
  with assms have "\<bar>(of_int (round_half_even y) :: real) - of_int m\<bar> < 1"
    by linarith
  then have "\<bar>round_half_even y - m\<bar> < 1"
    by (metis of_int_diff of_int_abs of_int_less_iff of_int_1)
  then show ?thesis by linarith
qed

lemma round_half_even_of_int: "round_half_even (of_int n) = n"
  by (rule round_half_even_near) simp

text \<open>
  The exponent search brackets its argument: between 2 to the power \<open>k\<close> and 2 to the power
  \<open>k + 1\<close> it returns \<open>k\<close>, as long as the rounds suffice.
\<close>

lemma exponent_from_upper:
  "0 < x \<Longrightarrow> x < 2 powi (k + 1) \<Longrightarrow> exponent_from n x e \<le> max (e + k) (e - int n)"
proof (induction n arbitrary: x e k)
  case 0
  then show ?case by simp
next
  case (Suc n)
  show ?case
  proof (cases "x \<ge> 2")
    case True
    have "x / 2 < 2 powi (k - 1 + 1)"
      using Suc.prems(2) by (simp add: power_int_add power_int_diff)
    from Suc.IH [of "x / 2" "k - 1" "e + 1"] this Suc.prems(1)
    have "exponent_from n (x / 2) (e + 1) \<le> max (e + 1 + (k - 1)) (e + 1 - int n)"
      by simp
    moreover have "k \<ge> 1"
    proof (rule ccontr)
      assume "\<not> k \<ge> 1"
      then have "k + 1 \<le> 1" by simp
      then have "(2::real) powi (k + 1) \<le> 2 powi 1"
        by (intro power_int_increasing) simp_all
      with Suc.prems(2) True show False by simp
    qed
    ultimately show ?thesis using True by simp
  next
    case False
    show ?thesis
    proof (cases "x < 1")
      case True
      have "x * 2 < 2 powi (k + 1 + 1)"
        using Suc.prems(2) by (simp add: power_int_add)
      from Suc.IH [of "x * 2" "k + 1" "e - 1"] this Suc.prems(1)
      have "exponent_from n (x * 2) (e - 1) \<le> max (e - 1 + (k + 1)) (e - 1 - int n)"
        by simp
      then show ?thesis using True False by simp
    next
      case False2: False
      have "k \<ge> 0"
      proof (rule ccontr)
        assume "\<not> k \<ge> 0"
        then have "k + 1 \<le> 0" by simp
        then have "(2::real) powi (k + 1) \<le> 2 powi 0"
          by (intro power_int_increasing) simp_all
        with Suc.prems(2) False2 show False by simp
      qed
      then show ?thesis using False False2 by simp
    qed
  qed
qed

lemma exponent_from_lower:
  "2 powi k \<le> x \<Longrightarrow> min (e + k) (e + int n) \<le> exponent_from n x e"
proof (induction n arbitrary: x e k)
  case 0
  then show ?case by simp
next
  case (Suc n)
  show ?case
  proof (cases "x \<ge> 2")
    case True
    have "2 powi (k - 1) \<le> x / 2"
      using Suc.prems by (simp add: power_int_diff)
    from Suc.IH [OF this, of "e + 1"]
    show ?thesis using True by simp
  next
    case False
    show ?thesis
    proof (cases "x < 1")
      case True
      have "2 powi (k + 1) \<le> x * 2"
        using Suc.prems by (simp add: power_int_add)
      from Suc.IH [OF this, of "e - 1"]
      have a: "min (e + k) (e - 1 + int n) \<le> exponent_from n (x * 2) (e - 1)"
        by simp
      have "k < 0"
      proof (rule ccontr)
        assume "\<not> k < 0"
        then have "(2::real) powi 0 \<le> 2 powi k"
          by (intro power_int_increasing) simp_all
        with Suc.prems True show False by simp
      qed
      then show ?thesis using True False a by simp
    next
      case False2: False
      have "k \<le> 0"
      proof (rule ccontr)
        assume "\<not> k \<le> 0"
        then have "(2::real) powi 1 \<le> 2 powi k"
          by (intro power_int_increasing) simp_all
        with Suc.prems False show False by simp
      qed
      then show ?thesis using False False2 by simp
    qed
  qed
qed

lemma exponent_eq:
  assumes "2 powi k \<le> \<bar>x\<bar>" and "\<bar>x\<bar> < 2 powi (k + 1)" and "- 2200 \<le> k" and "k \<le> 2200"
  shows "exponent x = k"
proof -
  have "0 < (2::real) powi k"
    by simp
  then have pos: "0 < \<bar>x\<bar>"
    using assms(1) by linarith
  have "exponent_from 2200 \<bar>x\<bar> 0 \<le> max (0 + k) (0 - int 2200)"
    by (rule exponent_from_upper [OF pos assms(2)])
  moreover have "min (0 + k) (0 + int 2200) \<le> exponent_from 2200 \<bar>x\<bar> 0"
    by (rule exponent_from_lower [OF assms(1)])
  ultimately show ?thesis
    using assms(3,4) by (simp add: exponent_def)
qed

lemma exponent_upper:
  assumes "x \<noteq> 0" and "\<bar>x\<bar> < 2 powi (k + 1)" and "- 1022 \<le> k"
  shows "max (exponent x) (- 1022) \<le> k"
proof -
  have pos: "0 < \<bar>x\<bar>" using assms(1) by simp
  have "exponent_from 2200 \<bar>x\<bar> 0 \<le> max (0 + k) (0 - int 2200)"
    by (rule exponent_from_upper [OF pos assms(2)])
  then show ?thesis
    using assms(3) by (simp add: exponent_def)
qed

text \<open>
  \<open>to_double\<close> is computed from the exponent and the mantissa; it is off by at most half
  the spacing, and it leaves the multiples of the spacing, among them the integers below
  2 to the power 53, as they are.
\<close>

lemma to_double_zero: "to_double 0 = 0"
  by (simp add: to_double_def)

lemma to_double_eval:
  assumes "2 powi k \<le> \<bar>x\<bar>" and "\<bar>x\<bar> < 2 powi (k + 1)" and "- 1022 \<le> k" and "k \<le> 2200"
    and "\<bar>x / 2 powi (k - 52) - of_int m\<bar> < 1 / 2"
  shows "to_double x = of_int m * 2 powi (k - 52)"
proof -
  have e: "exponent x = k"
    using assms(1-4) by (intro exponent_eq) simp_all
  have "0 < (2::real) powi k"
    by simp
  then have "0 < \<bar>x\<bar>"
    using assms(1) by linarith
  then have nz: "x \<noteq> 0"
    by auto
  have "round_half_even (x / 2 powi (k - 52)) = m"
    by (rule round_half_even_near [OF assms(5)])
  then show ?thesis
    using e nz assms(3) by (simp add: to_double_def Let_def max_def)
qed

lemma to_double_error:
  assumes "\<bar>x\<bar> < 2 powi (k + 1)" and "- 1022 \<le> k"
  shows "\<bar>to_double x - x\<bar> \<le> 2 powi (k - 53)"
proof (cases "x = 0")
  case True
  then show ?thesis by (simp add: to_double_def)
next
  case False
  define e where "e = max (exponent x) (- 1022)"
  define u :: real where "u = 2 powi (e - 52)"
  have upos: "0 < u" by (simp add: u_def)
  have ek: "e \<le> k"
    unfolding e_def by (rule exponent_upper [OF False assms])
  have td: "to_double x = of_int (round_half_even (x / u)) * u"
    using False by (simp add: to_double_def Let_def e_def u_def)
  have "\<bar>of_int (round_half_even (x / u)) - x / u\<bar> \<le> 1 / 2"
    by (rule round_half_even_error)
  then have "\<bar>of_int (round_half_even (x / u)) - x / u\<bar> * u \<le> 1 / 2 * u"
    using upos by (intro mult_right_mono) simp_all
  moreover have "\<bar>of_int (round_half_even (x / u)) - x / u\<bar> * u = \<bar>to_double x - x\<bar>"
  proof -
    have "(of_int (round_half_even (x / u)) - x / u) * u = to_double x - x"
      using upos by (simp add: td left_diff_distrib)
    then have "\<bar>to_double x - x\<bar> = \<bar>of_int (round_half_even (x / u)) - x / u\<bar> * \<bar>u\<bar>"
      by (simp only: abs_mult [symmetric])
    then show ?thesis using upos by simp
  qed
  moreover have "1 / 2 * u = 2 powi (e - 53)"
    by (simp add: u_def power_int_diff)
  moreover have "(2::real) powi (e - 53) \<le> 2 powi (k - 53)"
    using ek by (intro power_int_increasing) simp_all
  ultimately show ?thesis by linarith
qed

lemma to_double_exact:
  assumes "\<bar>x\<bar> < 2 powi (k + 1)" and "- 1022 \<le> k" and "x = of_int m * 2 powi (k - 52)"
  shows "to_double x = x"
proof (cases "x = 0")
  case True
  then show ?thesis by (simp add: to_double_def)
next
  case False
  define e where "e = max (exponent x) (- 1022)"
  have ek: "e \<le> k"
    unfolding e_def by (rule exponent_upper [OF False assms(1,2)])
  have "x / 2 powi (e - 52) = of_int m * 2 powi (k - e)"
    by (simp add: assms(3) power_int_diff)
  also have "\<dots> = of_int (m * 2 ^ nat (k - e))"
    using ek by (simp add: power_int_def)
  finally have "round_half_even (x / 2 powi (e - 52)) = m * 2 ^ nat (k - e)"
    by (simp only: round_half_even_of_int)
  then have "to_double x = of_int (m * 2 ^ nat (k - e)) * 2 powi (e - 52)"
    using False by (simp add: to_double_def Let_def e_def)
  also have "\<dots> = of_int m * (2 powi (k - e) * 2 powi (e - 52))"
    using ek by (simp add: power_int_def)
  also have "\<dots> = of_int m * 2 powi (k - 52)"
    by (simp flip: power_int_add)
  finally show ?thesis by (simp add: assms(3))
qed

lemma to_double_of_int:
  assumes "\<bar>n\<bar> < 2 ^ 53"
  shows "to_double (of_int n) = of_int n"
proof (rule to_double_exact [where k = 52 and m = n])
  have "\<bar>(of_int n :: real)\<bar> < of_int (2 ^ 53)"
    using assms by (metis of_int_abs of_int_less_iff)
  then show "\<bar>(of_int n :: real)\<bar> < 2 powi (52 + 1)" by simp
qed simp_all

text \<open>Rounding to two decimals leaves an integer as it is.\<close>

lemma round2_of_int:
  assumes "\<bar>n\<bar> < 2 ^ 46"
  shows "round2 (of_int n) = of_int n"
proof -
  have "\<bar>n\<bar> < 2 ^ 53"
    using assms by (rule less_trans) simp
  then have a: "to_double (of_int n) = of_int n"
    by (rule to_double_of_int)
  have "(of_int n :: real) * 100 = of_int (n * 100)"
    by simp
  then have "round_half_even (of_int n * 100) = n * 100"
    by (simp only: round_half_even_of_int)
  then show ?thesis
    by (simp add: round2_def a)
qed

text \<open>
  A percentage \<open>p / t * 100\<close> computed in doubles and rounded to two decimals is within
  0.005, and the rounding errors of four operations, of the exact one.
\<close>

lemma to_double_error_1:
  assumes "\<bar>x\<bar> < 2"
  shows "\<bar>to_double x - x\<bar> \<le> 1 / 9007199254740992"
  using to_double_error [of x 0] assms by (simp add: power_int_minus inverse_eq_divide)

lemma to_double_error_128:
  assumes "\<bar>x\<bar> < 128"
  shows "\<bar>to_double x - x\<bar> \<le> 1 / 140737488355328"
  using to_double_error [of x 6] assms by (simp add: power_int_minus inverse_eq_divide)

lemma percentage_close:
  assumes "0 < t" and "p \<le> t"
  shows "\<bar>round2 (fmul (idiv (int p) (int t)) 100) - real p / real t * 100\<bar>
           \<le> 1 / 200 + 1 / 1000000000000"
proof -
  define q where "q = real p / real t"
  define a where "a = to_double q"
  define a' where "a' = to_double a"
  define b where "b = to_double (a' * 100)"
  define b' where "b' = to_double b"
  define R where "R = round_half_even (b' * 100)"
  define r where "r = to_double (of_int R / 100)"
  have q: "0 \<le> q" "q \<le> 1"
    using assms by (simp_all add: q_def)
  have h: "to_double 100 = 100"
    using to_double_of_int [of 100] by simp
  have "\<bar>q\<bar> < 2"
    using q by linarith
  then have 1: "\<bar>a - q\<bar> \<le> 1 / 9007199254740992"
    unfolding a_def by (rule to_double_error_1)
  have "\<bar>a\<bar> < 2"
    using q 1 by linarith
  then have 2: "\<bar>a' - a\<bar> \<le> 1 / 9007199254740992"
    unfolding a'_def by (rule to_double_error_1)
  have "\<bar>a' * 100\<bar> < 128"
    using q 1 2 by linarith
  then have 3: "\<bar>b - a' * 100\<bar> \<le> 1 / 140737488355328"
    unfolding b_def by (rule to_double_error_128)
  have "\<bar>b\<bar> < 128"
    using q 1 2 3 by linarith
  then have 4: "\<bar>b' - b\<bar> \<le> 1 / 140737488355328"
    unfolding b'_def by (rule to_double_error_128)
  have 5: "\<bar>of_int R - b' * 100\<bar> \<le> 1 / 2"
    unfolding R_def by (rule round_half_even_error)
  have "\<bar>of_int R / 100 :: real\<bar> < 128"
    using q 1 2 3 4 5 by linarith
  then have 6: "\<bar>r - of_int R / 100\<bar> \<le> 1 / 140737488355328"
    unfolding r_def by (rule to_double_error_128)
  have "round2 (fmul (idiv (int p) (int t)) 100) = r"
    by (simp add: round2_def fmul_def idiv_def h r_def R_def b'_def b_def a'_def a_def q_def)
  moreover have "\<bar>r - q * 100\<bar> \<le> 1 / 200 + 1 / 1000000000000"
    using q 1 2 3 4 5 6 by linarith
  ultimately show ?thesis
    by (simp add: q_def)
qed

section \<open>The aggregate of no call and of one call\<close>

lemma process_interactions_call_logs:
  "call_logs (process_interactions svc h sid) = call_logs svc"
  by (induction h arbitrary: svc) (simp_all add: Let_def)

lemma save_call_data_call_logs:
  "call_logs (save_call_data svc s now_end now_duration) =
     call_logs svc @
       [\<lparr>call_session_id = sess_id s, call_client_id = client_id s, call_user_id = user_id s,
         call_start_time = start_time s,
         call_end_time = (case end_time s of Some t \<Rightarrow> t | None \<Rightarrow> now_end),
         call_duration = get_duration s now_duration,
         call_total_interactions = total_interactions s, call_status = status s,
         call_conversation_history = conversation_history s, call_metadata = metadata s\<rparr>]"
  by (simp add: save_call_data_def Let_def process_interactions_call_logs)

lemma one_call_overview:
  assumes "call_logs svc = [c]"
  shows "success_rate (overview (get_call_analytics svc clk)) =
           round2 (fmul (idiv (if call_status c = ''ended'' then 1 else 0) 1) 100)"
    and "average_duration (overview (get_call_analytics svc clk)) =
           round2 (fdiv (py_sum [call_duration c]) 1)"
  using assms by (simp_all add: get_call_analytics_def Let_def)

lemma percentage_of_all: "round2 (fmul (idiv 1 1) 100) = 100"
proof -
  have "to_double 1 = 1" and "to_double 100 = 100"
    using to_double_of_int [of 1] to_double_of_int [of 100] by simp_all
  then show ?thesis
    using round2_of_int [of 100] by (simp add: fmul_def idiv_def)
qed

lemma average_of_one: "round2 (fdiv (py_sum [42]) 1) = 42"
proof -
  have "to_double 1 = 1" and "to_double 42 = 42"
    using to_double_of_int [of 1] to_double_of_int [of 42] by simp_all
  then show ?thesis
    using round2_of_int [of 42] by (simp add: fdiv_def py_sum_def)
qed

text \<open>
  C7. On a service with no recorded call, \<open>get_call_analytics\<close> returns the all-zero
  aggregate. After recording, on a new service, one session whose status is ended and
  whose duration is 42, it reports success rate 100 and average duration 42.
\<close>

theorem call_analytics_zero_and_one:
  "(call_logs svc = [] \<longrightarrow>
      get_call_analytics svc clk =
        \<lparr>overview =
           \<lparr>total_calls = 0, calls_today = 0, calls_this_week = 0, calls_this_month = 0,
            average_duration = 0, average_interactions = 0, success_rate = 0, peak_hour = 0\<rparr>,
         trends =
           \<lparr>daily_calls = [], hourly_distribution = [], duration_trend = [],
            interaction_trend = []\<rparr>,
         performance =
           \<lparr>average_response_time = 0, error_rate = 0, user_satisfaction = 0\<rparr>\<rparr>)
   \<and> (status s = ''ended'' \<and> get_duration s now_duration = 42 \<longrightarrow>
        success_rate (overview
          (get_call_analytics (save_call_data AnalyticsService_init s now_end now_duration) clk))
          = 100
        \<and> average_duration (overview
          (get_call_analytics (save_call_data AnalyticsService_init s now_end now_duration) clk))
          = 42)"
proof (intro conjI impI)
  assume "call_logs svc = []"
  then show "get_call_analytics svc clk =
        \<lparr>overview =
           \<lparr>total_calls = 0, calls_today = 0, calls_this_week = 0, calls_this_month = 0,
            average_duration = 0, average_interactions = 0, success_rate = 0, peak_hour = 0\<rparr>,
         trends =
           \<lparr>daily_calls = [], hourly_distribution = [], duration_trend = [],
            interaction_trend = []\<rparr>,
         performance =
           \<lparr>average_response_time = 0, error_rate = 0, user_satisfaction = 0\<rparr>\<rparr>"
    by (simp add: get_call_analytics_def get_empty_analytics_def)
next
  assume a: "status s = ''ended'' \<and> get_duration s now_duration = 42"
  define svc1 where "svc1 = save_call_data AnalyticsService_init s now_end now_duration"
  define c where "c = \<lparr>call_session_id = sess_id s, call_client_id = client_id s,
         call_user_id = user_id s, call_start_time = start_time s,
         call_end_time = (case end_time s of Some t \<Rightarrow> t | None \<Rightarrow> now_end),
         call_duration = get_duration s now_duration,
         call_total_interactions = total_interactions s, call_status = status s,
         call_conversation_history = conversation_history s, call_metadata = metadata s\<rparr>"
  have l: "call_logs svc1 = [c]"
    unfolding svc1_def c_def
    by (simp add: save_call_data_call_logs AnalyticsService_init_def)
  have st: "call_status c = ''ended''" and du: "call_duration c = 42"
    using a by (simp_all add: c_def)
  show "success_rate (overview (get_call_analytics svc1 clk)) = 100"
    using one_call_overview(1) [OF l, of clk] st percentage_of_all by simp
  show "average_duration (overview (get_call_analytics svc1 clk)) = 42"
    using one_call_overview(2) [OF l, of clk] du average_of_one by simp
qed

theorem call_analytics_zero_and_one_witness:
  "call_logs AnalyticsService_init = []
   \<and> total_calls (overview (get_call_analytics AnalyticsService_init day_one_clock)) = 0
   \<and> status ended_session = ''ended''
   \<and> get_duration ended_session 0 = 42
   \<and> success_rate (overview
        (get_call_analytics (save_call_data AnalyticsService_init ended_session 0 0) day_one_clock))
        = 100
   \<and> average_duration (overview
        (get_call_analytics (save_call_data AnalyticsService_init ended_session 0 0) day_one_clock))
        = 42"
proof -
  have a: "call_logs AnalyticsService_init = []"
    by (simp add: AnalyticsService_init_def)
  have b: "status ended_session = ''ended''"
    by (simp add: ended_session_def)
  have c: "get_duration ended_session 0 = 42"
    by (simp add: ended_session_def get_duration_def new_session_def total_seconds_def)
  show ?thesis
    using a b c
      call_analytics_zero_and_one [of AnalyticsService_init day_one_clock ended_session 0 0]
    by simp
qed

section \<open>The satisfaction estimate\<close>

lemma count_indicators_filter:
  "count_indicators (p, n) logs =
     (p + length (filter (\<lambda>l. any_in positive_words (lower (int_user_message l))) logs),
      n + length (filter (\<lambda>l. any_in negative_words (lower (int_user_message l))) logs))"
  by (induction logs arbitrary: p n) (simp_all add: Let_def)

lemma three_messages_counts:
  "length (filter (\<lambda>l. any_in positive_words (lower (int_user_message l))) three_messages) = 1
   \<and> length (filter (\<lambda>l. any_in negative_words (lower (int_user_message l))) three_messages) = 2"
  by (simp add: three_messages_def said_def any_in_def positive_words_def negative_words_def
      lower_def lower_char_def)

lemma many_messages_counts:
  "length (filter (\<lambda>l. any_in positive_words (lower (int_user_message l))) many_messages) = 23
   \<and> length (filter (\<lambda>l. any_in negative_words (lower (int_user_message l))) many_messages) = 137"
  by (simp add: many_messages_def said_def any_in_def positive_words_def negative_words_def
      lower_def lower_char_def)

text \<open>
  The doubles met on the way from 1 / 3 to 33.33 and from 23 / 160 to 14.37: the
  quotient, the quotient times 100, and the double nearest to the decimal number that
  \<open>round\<close> arrives at.
\<close>

lemma to_double_third_quotient:
  "to_double (1 / 3) =
     6004799503160661 / 18014398509481984"
  using to_double_eval [of "- 2" "1 / 3" 6004799503160661] by simp

lemma to_double_third_quotient_again:
  "to_double (6004799503160661 / 18014398509481984) =
     6004799503160661 / 18014398509481984"
  using to_double_eval [of "- 2" "6004799503160661 / 18014398509481984" 6004799503160661] by simp

lemma to_double_third_percentage:
  "to_double (150119987579016525 / 4503599627370496) =
     2345624805922133 / 70368744177664"
  using to_double_eval [of 5 "150119987579016525 / 4503599627370496" 4691249611844266] by simp

lemma to_double_third_percentage_again:
  "to_double (2345624805922133 / 70368744177664) =
     2345624805922133 / 70368744177664"
  using to_double_eval [of 5 "2345624805922133 / 70368744177664" 4691249611844266] by simp

lemma to_double_third_rounded:
  "to_double (3333 / 100) =
     2345390243441541 / 70368744177664"
  using to_double_eval [of 5 "3333 / 100" 4690780486883082] by simp

lemma percentage_third:
  "round2 (fmul (idiv 1 3) 100) = to_double (3333 / 100)"
proof -
  have h: "to_double 100 = 100"
    using to_double_of_int [of 100] by simp
  have f: "fmul (idiv 1 3) 100 = 2345624805922133 / 70368744177664"
    by (simp add: fmul_def idiv_def h to_double_third_quotient to_double_third_quotient_again
        to_double_third_percentage)
  have "round_half_even (2345624805922133 / 70368744177664 * 100) = 3333"
    by (rule round_half_even_near) simp
  then show ?thesis
    by (simp add: round2_def f to_double_third_percentage_again)
qed

lemma to_double_many_quotient:
  "to_double (23 / 160) =
     2589569785738035 / 18014398509481984"
  using to_double_eval [of "- 3" "23 / 160" 5179139571476070] by simp

lemma to_double_many_quotient_again:
  "to_double (2589569785738035 / 18014398509481984) =
     2589569785738035 / 18014398509481984"
  using to_double_eval [of "- 3" "2589569785738035 / 18014398509481984" 5179139571476070] by simp

lemma to_double_many_percentage:
  "to_double (64739244643450875 / 4503599627370496) =
     8092405580431359 / 562949953421312"
  using to_double_eval [of 3 "64739244643450875 / 4503599627370496" 8092405580431359] by simp

lemma to_double_many_percentage_again:
  "to_double (8092405580431359 / 562949953421312) =
     8092405580431359 / 562949953421312"
  using to_double_eval [of 3 "8092405580431359 / 562949953421312" 8092405580431359] by simp

lemma to_double_many_rounded:
  "to_double (1437 / 100) =
     8089590830664253 / 562949953421312"
  using to_double_eval [of 3 "1437 / 100" 8089590830664253] by simp

lemma percentage_many:
  "round2 (fmul (idiv 23 160) 100) = to_double (1437 / 100)"
proof -
  have h: "to_double 100 = 100"
    using to_double_of_int [of 100] by simp
  have f: "fmul (idiv 23 160) 100 = 8092405580431359 / 562949953421312"
    by (simp add: fmul_def idiv_def h to_double_many_quotient to_double_many_quotient_again
        to_double_many_percentage)
  have "round_half_even (8092405580431359 / 562949953421312 * 100) = 1437"
    by (rule round_half_even_near) simp
  then show ?thesis
    by (simp add: round2_def f to_double_many_percentage_again)
qed

text \<open>
  C9, amended. The estimate counts the recorded interactions whose text contains a
  positive keyword and those whose text contains a negative keyword (an interaction
  counts once however many keywords it contains). With no recorded interaction it is 0;
  with interactions but none counted it is the baseline 75; otherwise it is positive
  divided by (positive + negative), times 100, computed in doubles and rounded to two
  decimals, which is within 0.005 and a millionth of a millionth of the exact value.
\<close>

theorem user_satisfaction_estimate:
  "estimate_user_satisfaction logs =
     (let positive = length (filter (\<lambda>l. any_in positive_words (lower (int_user_message l))) logs);
          negative = length (filter (\<lambda>l. any_in negative_words (lower (int_user_message l))) logs)
      in if logs = [] then 0
         else if positive + negative = 0 then 75
         else round2 (fmul (idiv (int positive) (int (positive + negative))) 100))
   \<and> (let positive = length (filter (\<lambda>l. any_in positive_words (lower (int_user_message l))) logs);
           negative = length (filter (\<lambda>l. any_in negative_words (lower (int_user_message l))) logs)
       in logs \<noteq> [] \<and> 0 < positive + negative \<longrightarrow>
          \<bar>estimate_user_satisfaction logs - real positive / real (positive + negative) * 100\<bar>
            \<le> 1 / 200 + 1 / 1000000000000)"
proof -
  define positive where
    "positive = length (filter (\<lambda>l. any_in positive_words (lower (int_user_message l))) logs)"
  define negative where
    "negative = length (filter (\<lambda>l. any_in negative_words (lower (int_user_message l))) logs)"
  have e: "estimate_user_satisfaction logs =
      (if logs = [] then 0
       else if positive + negative = 0 then 75
       else round2 (fmul (idiv (int positive) (int (positive + negative))) 100))"
    by (simp add: estimate_user_satisfaction_def count_indicators_filter Let_def
        positive_def negative_def)
  have b: "logs \<noteq> [] \<and> 0 < positive + negative \<longrightarrow>
      \<bar>estimate_user_satisfaction logs - real positive / real (positive + negative) * 100\<bar>
        \<le> 1 / 200 + 1 / 1000000000000"
  proof
    assume h: "logs \<noteq> [] \<and> 0 < positive + negative"
    then have "estimate_user_satisfaction logs =
        round2 (fmul (idiv (int positive) (int (positive + negative))) 100)"
      by (auto simp: e)
    moreover have "positive \<le> positive + negative"
      by simp
    ultimately show
      "\<bar>estimate_user_satisfaction logs - real positive / real (positive + negative) * 100\<bar>
         \<le> 1 / 200 + 1 / 1000000000000"
      using percentage_close [of "positive + negative" positive] h by simp
  qed
  show ?thesis
    unfolding Let_def positive_def [symmetric] negative_def [symmetric]
    using e b by (rule conjI)
qed

theorem user_satisfaction_estimate_witness:
  "estimate_user_satisfaction three_messages = to_double (3333 / 100)
   \<and> three_messages \<noteq> []
   \<and> \<bar>estimate_user_satisfaction three_messages - 1 / 3 * 100\<bar> \<le> 1 / 200 + 1 / 1000000000000
   \<and> estimate_user_satisfaction many_messages = to_double (1437 / 100)
   \<and> to_double (3333 / 100) = 2345390243441541 / 70368744177664
   \<and> to_double (1437 / 100) = 8089590830664253 / 562949953421312"
proof -
  have ne: "three_messages \<noteq> []" "many_messages \<noteq> []"
    by (simp_all add: three_messages_def many_messages_def)
  note t = user_satisfaction_estimate [of three_messages]
  note m = user_satisfaction_estimate [of many_messages]
  have a: "estimate_user_satisfaction three_messages = to_double (3333 / 100)"
    using conjunct1 [OF t] three_messages_counts ne(1) percentage_third
    by (simp add: Let_def)
  have b: "\<bar>estimate_user_satisfaction three_messages - 1 / 3 * 100\<bar>
             \<le> 1 / 200 + 1 / 1000000000000"
    using conjunct2 [OF t] three_messages_counts ne(1)
    by (simp add: Let_def)
  have c: "estimate_user_satisfaction many_messages = to_double (1437 / 100)"
    using conjunct1 [OF m] many_messages_counts ne(2) percentage_many
    by (simp add: Let_def)
  show ?thesis
    using a b c ne(1) to_double_third_rounded to_double_many_rounded by simp
qed

text \<open>
  C9 as stated fails. With no recorded interaction no keyword is found, and the estimate
  is 0, not 75. With one positive and two negative interactions the estimate is the double
  33.33, not one third of 100; with 23 positive and 137 negative ones it is the double
  14.37, not 14.375.
\<close>

theorem user_satisfaction_counterexample:
  "count_indicators (0, 0) [] = (0, 0)
   \<and> estimate_user_satisfaction [] = 0
   \<and> estimate_user_satisfaction [] \<noteq> 75
   \<and> count_indicators (0, 0) three_messages = (1, 2)
   \<and> estimate_user_satisfaction three_messages = 2345390243441541 / 70368744177664
   \<and> estimate_user_satisfaction three_messages \<noteq> 1 / (1 + 2) * 100
   \<and> count_indicators (0, 0) many_messages = (23, 137)
   \<and> estimate_user_satisfaction many_messages = 8089590830664253 / 562949953421312
   \<and> estimate_user_satisfaction many_messages \<noteq> 23 / (23 + 137) * 100"
proof -
  have c: "count_indicators (0, 0) three_messages = (1, 2)"
    using three_messages_counts by (simp add: count_indicators_filter)
  have d: "count_indicators (0, 0) many_messages = (23, 137)"
    using many_messages_counts by (simp add: count_indicators_filter)
  have ne: "three_messages \<noteq> []" "many_messages \<noteq> []"
    by (simp_all add: three_messages_def many_messages_def)
  have e: "estimate_user_satisfaction three_messages = 2345390243441541 / 70368744177664"
    using c percentage_third to_double_third_rounded ne(1)
    by (simp add: estimate_user_satisfaction_def)
  have f: "estimate_user_satisfaction many_messages = 8089590830664253 / 562949953421312"
    using d percentage_many to_double_many_rounded ne(2)
    by (simp add: estimate_user_satisfaction_def)
  have z: "estimate_user_satisfaction [] = 0"
    by (simp add: estimate_user_satisfaction_def)
  show ?thesis
    unfolding e f z using c d by simp
qed

section \<open>The peak hour\<close>

lemma max_from_first_max:
  "max_from key b xs \<in> set (b # xs)
   \<and> (\<forall>y \<in> set (b # xs). key y \<le> key (max_from key b xs))
   \<and> (\<forall>y \<in> set (takeWhile (\<lambda>y. y \<noteq> max_from key b xs) (b # xs)).
         key y < key (max_from key b xs))"
proof (induction xs arbitrary: b)
  case Nil
  then show ?case by simp
next
  case (Cons x xs)
  let ?b' = "if key x > key b then x else b"
  let ?r = "max_from key ?b' xs"
  note ih = Cons.IH [of ?b']
  have r: "max_from key b (x # xs) = ?r" by simp
  show ?case
    unfolding r using ih by (auto split: if_splits)
qed

lemma bump_hour_keys:
  "map fst (bump_hour d h) = (if h \<in> set (map fst d) then map fst d else map fst d @ [h])"
  by (simp add: bump_hour_def update_keys)

lemma bump_hour_lookup:
  "map_of (bump_hour d h) k =
     (if k = h then Some ((case map_of d h of None \<Rightarrow> 0 | Some n \<Rightarrow> n) + 1) else map_of d k)"
  by (simp add: bump_hour_def update_conv')

lemma counts_lookup:
  "map_of (foldl bump_hour [] hs) h = (if h \<in> set hs then Some (count_list hs h) else None)"
  by (induction hs rule: rev_induct) (auto simp: bump_hour_lookup)

lemma counts_keys_set: "set (map fst (foldl bump_hour [] hs)) = set hs"
  by (induction hs rule: rev_induct) (auto simp: bump_hour_keys)

lemma counts_keys_before:
  "set (takeWhile (\<lambda>k. k \<noteq> p) (map fst (foldl bump_hour [] hs))) =
   set (takeWhile (\<lambda>h. h \<noteq> p) hs)"
proof (induction hs rule: rev_induct)
  case Nil
  then show ?case by simp
next
  case (snoc x xs)
  define ks where "ks = map fst (foldl bump_hour [] xs)"
  have ks: "set ks = set xs"
    unfolding ks_def by (rule counts_keys_set)
  have ih: "set (takeWhile (\<lambda>k. k \<noteq> p) ks) = set (takeWhile (\<lambda>h. h \<noteq> p) xs)"
    unfolding ks_def by (rule snoc.IH)
  have keys: "map fst (foldl bump_hour [] (xs @ [x])) = (if x \<in> set ks then ks else ks @ [x])"
    unfolding ks_def by (simp add: bump_hour_keys del: set_map)
  show ?case
  proof (cases "p \<in> set xs")
    case True
    then have "p \<in> set ks" using ks by simp
    then show ?thesis
      unfolding keys using True ih by (simp add: takeWhile_append1)
  next
    case False
    then have nk: "p \<notin> set ks" using ks by simp
    have a: "takeWhile (\<lambda>h. h \<noteq> p) (xs @ [x]) = xs @ takeWhile (\<lambda>h. h \<noteq> p) [x]"
      using False by (intro takeWhile_append2) auto
    have b: "takeWhile (\<lambda>k. k \<noteq> p) (ks @ [x]) = ks @ takeWhile (\<lambda>h. h \<noteq> p) [x]"
      using nk by (intro takeWhile_append2) auto
    have c: "takeWhile (\<lambda>k. k \<noteq> p) ks = ks"
      using nk by (auto simp: takeWhile_eq_all_conv)
    show ?thesis
    proof (cases "x \<in> set ks")
      case True
      then have x: "x \<in> set xs" and "x \<noteq> p" using nk ks by auto
      then have t: "takeWhile (\<lambda>h. h \<noteq> p) [x] = [x]" by simp
      have "set (takeWhile (\<lambda>k. k \<noteq> p) ks) = set xs"
        by (simp only: c ks)
      moreover have "set (xs @ [x]) = set xs"
        using x by auto
      ultimately show ?thesis
        by (simp only: keys a t True if_True)
    next
      case False
      then show ?thesis
        unfolding keys a using b ks by simp
    qed
  qed
qed

lemma counts_key:
  "(case map_of (foldl bump_hour [] hs) h of None \<Rightarrow> 0 | Some n \<Rightarrow> n) = count_list hs h"
  by (simp add: counts_lookup)

lemma peak_hour_of_counts:
  assumes "hs \<noteq> []"
  shows "peak_hour_of (foldl bump_hour [] hs) \<in> set hs
     \<and> (\<forall>h. count_list hs h \<le> count_list hs (peak_hour_of (foldl bump_hour [] hs)))
     \<and> (\<forall>h \<in> set (takeWhile (\<lambda>h. h \<noteq> peak_hour_of (foldl bump_hour [] hs)) hs).
           count_list hs h < count_list hs (peak_hour_of (foldl bump_hour [] hs)))"
proof -
  define d where "d = foldl bump_hour [] hs"
  define key where "key = (\<lambda>h. case map_of d h of None \<Rightarrow> 0 | Some n \<Rightarrow> n)"
  have key: "key = count_list hs"
    unfolding key_def d_def by (rule ext) (rule counts_key)
  have ks: "set (map fst d) = set hs"
    unfolding d_def by (rule counts_keys_set)
  then have "map fst d \<noteq> []"
    using assms by auto
  then obtain k rest where kr: "map fst d = k # rest"
    by (cases "map fst d") auto
  define p where "p = max_from key k rest"
  have p: "peak_hour_of d = p"
    by (simp add: peak_hour_of_def kr p_def key_def)
  note m = max_from_first_max [of key k rest, folded p_def]
  have in_hs: "p \<in> set hs"
    using m ks kr by auto
  have le: "count_list hs h \<le> count_list hs p" for h
  proof (cases "h \<in> set hs")
    case True
    then have "h \<in> set (k # rest)" using ks kr by auto
    then show ?thesis using m key by auto
  next
    case False
    then show ?thesis by simp
  qed
  have before: "set (takeWhile (\<lambda>h. h \<noteq> p) hs) = set (takeWhile (\<lambda>y. y \<noteq> p) (k # rest))"
    using counts_keys_before [of p hs] by (simp only: d_def [symmetric] kr)
  have lt: "\<forall>h \<in> set (takeWhile (\<lambda>h. h \<noteq> p) hs). count_list hs h < count_list hs p"
    unfolding before using m key by blast
  show ?thesis
    unfolding d_def [symmetric] p using in_hs le lt by blast
qed

lemma get_call_analytics_peak_hour:
  "call_logs svc \<noteq> [] \<Longrightarrow>
   peak_hour (overview (get_call_analytics svc clk)) =
     peak_hour_of (foldl bump_hour [] (map (\<lambda>c. hour (call_start_time c)) (call_logs svc)))"
  by (simp add: get_call_analytics_def Let_def hour_distribution_def)

lemma afternoon_then_morning_hours:
  "map (\<lambda>c. hour (call_start_time c)) (call_logs afternoon_then_morning) = [15, 9]"
  by (simp add: afternoon_then_morning_def call_at_def hour_def)

lemma afternoon_then_morning_peak:
  "peak_hour (overview (get_call_analytics afternoon_then_morning day_one_clock)) = 15"
proof -
  have ne: "call_logs afternoon_then_morning \<noteq> []"
    by (simp add: afternoon_then_morning_def)
  have "peak_hour_of (foldl bump_hour [] [15, 9]) = 15"
    by (simp add: peak_hour_of_def bump_hour_def)
  then show ?thesis
    by (simp only: get_call_analytics_peak_hour [OF ne] afternoon_then_morning_hours)
qed

text \<open>
  C8, amended. For every non-empty call log the peak hour is a mode of the start hours of
  the recorded calls: no hour starts more calls. Among tied hours it is the one that
  appears first in the call log: every hour that appears in the log before the peak
  hour's first call starts strictly fewer calls.
\<close>

theorem peak_hour_first_mode:
  assumes "call_logs svc \<noteq> []"
  shows "peak_hour (overview (get_call_analytics svc clk))
           \<in> set (map (\<lambda>c. hour (call_start_time c)) (call_logs svc))
     \<and> (\<forall>h. count_list (map (\<lambda>c. hour (call_start_time c)) (call_logs svc)) h
            \<le> count_list (map (\<lambda>c. hour (call_start_time c)) (call_logs svc))
                 (peak_hour (overview (get_call_analytics svc clk))))
     \<and> (\<forall>h \<in> set (takeWhile (\<lambda>h. h \<noteq> peak_hour (overview (get_call_analytics svc clk)))
                       (map (\<lambda>c. hour (call_start_time c)) (call_logs svc))).
           count_list (map (\<lambda>c. hour (call_start_time c)) (call_logs svc)) h
             < count_list (map (\<lambda>c. hour (call_start_time c)) (call_logs svc))
                 (peak_hour (overview (get_call_analytics svc clk))))"
proof -
  have ne: "map (\<lambda>c. hour (call_start_time c)) (call_logs svc) \<noteq> []"
    using assms by simp
  show ?thesis
    unfolding get_call_analytics_peak_hour [OF assms]
    by (rule peak_hour_of_counts [OF ne])
qed

theorem peak_hour_first_mode_witness:
  "call_logs afternoon_then_morning \<noteq> []
   \<and> peak_hour (overview (get_call_analytics afternoon_then_morning day_one_clock)) \<in> {15, 9}
   \<and> count_list [15, 9 :: nat] 9
        \<le> count_list [15, 9 :: nat]
             (peak_hour (overview (get_call_analytics afternoon_then_morning day_one_clock)))"
proof -
  have ne: "call_logs afternoon_then_morning \<noteq> []"
    by (simp add: afternoon_then_morning_def)
  show ?thesis
    using ne peak_hour_first_mode [OF ne, of day_one_clock]
    by (simp only: afternoon_then_morning_hours) auto
qed

text \<open>
  C8 as stated fails. The log holds a call at 15 o'clock, then a call at 9 o'clock: both
  hours are tied with one call, and the peak hour reported is 15, not the smaller 9.
\<close>

theorem peak_hour_tie_counterexample:
  "map (\<lambda>c. hour (call_start_time c)) (call_logs afternoon_then_morning) = [15, 9]
   \<and> count_list [15, 9 :: nat] 9 = count_list [15, 9 :: nat] 15
   \<and> peak_hour (overview (get_call_analytics afternoon_then_morning day_one_clock)) = 15
   \<and> (9 :: nat) < 15"
  by (simp add: afternoon_then_morning_hours afternoon_then_morning_peak)

end
